theory Spec2Isabelle
  imports Complex_Main
begin

section \<open>Numbers\<close>

text \<open>
  JavaScript numbers are binary64 floating-point numbers. They are modelled as real numbers,
  and every value is finite: NaN, the infinities and overflow are outside the model.
  Comparisons, \<^verbatim>\<open>Math.max\<close> and \<^verbatim>\<open>Math.min\<close> are exact. Where the rounding of an
  operation can change what is proved (the division for the world boundary, the
  countdown of the cooldown and of the life of a projectile, the moves of a projectile and
  the store of a height into the single-precision position attribute of the mesh), the
  operation is rounded in the model by \<open>roundDouble\<close> or \<open>fround\<close>, and the literal
  \<^verbatim>\<open>0.3\<close> of the cooldown time is the binary64 number nearest to 0.3 (the other
  literals of the countdowns and of the world boundary are binary64 numbers as written).
  Elsewhere (the noise sum of the height function and the moves of the drone, which go
  through three.js) the operations are those of the reals.

  \<^verbatim>\<open>ImprovedNoise\<close>, \<^verbatim>\<open>THREE.Color\<close> and \<^verbatim>\<open>THREE.PlaneGeometry\<close> come from the three.js
  library, which is not part of the repository. The noise object is a parameter of the
  model (its method \<^verbatim>\<open>noise(x, y, z)\<close> is a function of three reals), the colour
  conversion is a parameter, and the vertex list of the plane geometry is an input.
\<close>

subsection \<open>Rounding to a binary floating-point format\<close>

text \<open>The integer nearest to \<open>y\<close>; of two nearest integers, the even one.\<close>

definition roundTiesToEven :: "real \<Rightarrow> int" where
  "roundTiesToEven y =
     (let n = \<lfloor>y\<rfloor>; r = y - of_int n
      in if r < 1 / 2 then n else if 1 / 2 < r then n + 1 else if even n then n else n + 1)"

text \<open>
  Rounding to the nearest number with a significand of \<open>p\<close> bits and an exponent of at
  least \<open>emin\<close> (below \<open>2 ^ emin\<close> the spacing of the subnormal numbers is kept), ties to
  even: \<open>e\<close> is the exponent of \<open>x\<close> and \<open>u\<close> the spacing of the format at \<open>x\<close>.
\<close>

definition roundBinary :: "nat \<Rightarrow> int \<Rightarrow> real \<Rightarrow> real" where
  "roundBinary p emin x =
     (if x = 0 then 0
      else let e = max emin \<lfloor>log 2 \<bar>x\<bar>\<rfloor>;
               u = 2 powr of_int (e - int p + 1)
           in u * of_int (roundTiesToEven (x / u)))"

text \<open>The result of an arithmetic operation on numbers: binary64.\<close>

definition roundDouble :: "real \<Rightarrow> real" where
  "roundDouble = roundBinary 53 (- 1022)"

text \<open>The value kept by a store into a \<^verbatim>\<open>Float32Array\<close> (\<^verbatim>\<open>Math.fround\<close>): binary32.\<close>

definition fround :: "real \<Rightarrow> real" where
  "fround = roundBinary 24 (- 126)"

text \<open>
  The rounding error that \<open>n\<close> successive subtractions from a value of size \<open>c\<close> can
  build up: each binary64 operation has a relative error of at most \<open>2 ^ - 53\<close>, and an
  absolute one of at most \<open>2 ^ - 1075\<close> near 0.
\<close>

definition tolerance :: "real \<Rightarrow> nat \<Rightarrow> real" where
  "tolerance c n = ((1 + 2 powr (- 53)) ^ n - 1) * (\<bar>c\<bar> + 2 powr (- 1022))"

subsection \<open>Vectors and the noise field\<close>

type_synonym noise = "real \<Rightarrow> real \<Rightarrow> real \<Rightarrow> real"

type_synonym vec3 = "real \<times> real \<times> real"

definition getX :: "vec3 \<Rightarrow> real" where
  "getX v = fst v"

definition getY :: "vec3 \<Rightarrow> real" where
  "getY v = fst (snd v)"

definition getZ :: "vec3 \<Rightarrow> real" where
  "getZ v = snd (snd v)"

definition setY :: "real \<Rightarrow> vec3 \<Rightarrow> vec3" where
  "setY y v = (getX v, y, getZ v)"

text \<open>Noise fields used to run the model on concrete inputs: a field that is constant.\<close>

definition constNoise :: "real \<Rightarrow> noise" where
  "constNoise c x y z = c"

text \<open>A colour conversion used to run the model on concrete inputs: the three bytes of
  the hex value, each scaled to the unit interval.\<close>

definition hexRGB :: "nat \<Rightarrow> vec3" where
  "hexRGB hex =
     (real (hex div 65536 mod 256) / 255, real (hex div 256 mod 256) / 255, real (hex mod 256) / 255)"

section \<open>Variables.js\<close>

definition ColorVariables_terrainColor_m50 :: nat where "ColorVariables_terrainColor_m50 = 0x000033"
definition ColorVariables_terrainColor_m40 :: nat where "ColorVariables_terrainColor_m40 = 0x001a66"
definition ColorVariables_terrainColor_m30 :: nat where "ColorVariables_terrainColor_m30 = 0x003399"
definition ColorVariables_terrainColor_m20 :: nat where "ColorVariables_terrainColor_m20 = 0x004ccf"
definition ColorVariables_terrainColor_m10 :: nat where "ColorVariables_terrainColor_m10 = 0x1f75ff"
definition ColorVariables_terrainColor_0 :: nat where "ColorVariables_terrainColor_0 = 0x66ccff"
definition ColorVariables_terrainColor_p10 :: nat where "ColorVariables_terrainColor_p10 = 0xeedc82"
definition ColorVariables_terrainColor_p20 :: nat where "ColorVariables_terrainColor_p20 = 0xd2b48c"
definition ColorVariables_terrainColor_p30 :: nat where "ColorVariables_terrainColor_p30 = 0x7cfc00"
definition ColorVariables_terrainColor_p40 :: nat where "ColorVariables_terrainColor_p40 = 0x228b22"
definition ColorVariables_terrainColor_p50 :: nat where "ColorVariables_terrainColor_p50 = 0x006400"
definition ColorVariables_terrainColor_p60 :: nat where "ColorVariables_terrainColor_p60 = 0x8b7765"
definition ColorVariables_terrainColor_p70 :: nat where "ColorVariables_terrainColor_p70 = 0xa9a9a9"
definition ColorVariables_terrainColor_p80 :: nat where "ColorVariables_terrainColor_p80 = 0x808080"
definition ColorVariables_terrainColor_p90 :: nat where "ColorVariables_terrainColor_p90 = 0x696969"
definition ColorVariables_terrainColor_p100 :: nat where "ColorVariables_terrainColor_p100 = 0xffffff"

definition ColorVariables_landMetalness :: real where "ColorVariables_landMetalness = 0.125"
definition ColorVariables_landRoughness :: real where "ColorVariables_landRoughness = 0.875"
definition ColorVariables_waterMetalness :: real where "ColorVariables_waterMetalness = 0.875"
definition ColorVariables_waterRoughness :: real where "ColorVariables_waterRoughness = 0.125"

definition DroneVariables_moveSpeed :: real where "DroneVariables_moveSpeed = 32.0"
definition DroneVariables_rotateSpeed :: real where "DroneVariables_rotateSpeed = 2"
definition DroneVariables_heightMax :: real where "DroneVariables_heightMax = 2048"
definition DroneVariables_basicMultiplier :: real where "DroneVariables_basicMultiplier = 2"
definition DroneVariables_thrustMultiplier :: real where "DroneVariables_thrustMultiplier = 6"
definition DroneVariables_minAboveGround :: real where "DroneVariables_minAboveGround = 4"
definition DroneVariables_nullPoint :: real where "DroneVariables_nullPoint = 0"
definition DroneVariables_projectileSpeed :: real where "DroneVariables_projectileSpeed = 120"
definition DroneVariables_projectileTTL :: real where "DroneVariables_projectileTTL = 4"
definition DroneVariables_cooldown :: real where "DroneVariables_cooldown = 0"
definition DroneVariables_cooldownTime :: real where "DroneVariables_cooldownTime = roundDouble 0.3"

definition TerrainVariables_terrainSize :: real where "TerrainVariables_terrainSize = 8192"
definition TerrainVariables_terrainDetails :: nat where "TerrainVariables_terrainDetails = 256"
definition TerrainVariables_terrainBorderFactor :: real where "TerrainVariables_terrainBorderFactor = 2.000"
definition TerrainVariables_terrainBorderDelimiter :: real where "TerrainVariables_terrainBorderDelimiter = 0.125"

definition TerrainVariables_terrainHeight_m50 :: real where "TerrainVariables_terrainHeight_m50 = -50"
definition TerrainVariables_terrainHeight_m40 :: real where "TerrainVariables_terrainHeight_m40 = -40"
definition TerrainVariables_terrainHeight_m30 :: real where "TerrainVariables_terrainHeight_m30 = -30"
definition TerrainVariables_terrainHeight_m20 :: real where "TerrainVariables_terrainHeight_m20 = -20"
definition TerrainVariables_terrainHeight_m10 :: real where "TerrainVariables_terrainHeight_m10 = -10"
definition TerrainVariables_terrainHeight_0 :: real where "TerrainVariables_terrainHeight_0 = 0"
definition TerrainVariables_terrainHeight_p10 :: real where "TerrainVariables_terrainHeight_p10 = 10"
definition TerrainVariables_terrainHeight_p20 :: real where "TerrainVariables_terrainHeight_p20 = 20"
definition TerrainVariables_terrainHeight_p30 :: real where "TerrainVariables_terrainHeight_p30 = 30"
definition TerrainVariables_terrainHeight_p40 :: real where "TerrainVariables_terrainHeight_p40 = 40"
definition TerrainVariables_terrainHeight_p50 :: real where "TerrainVariables_terrainHeight_p50 = 50"
definition TerrainVariables_terrainHeight_p60 :: real where "TerrainVariables_terrainHeight_p60 = 60"
definition TerrainVariables_terrainHeight_p70 :: real where "TerrainVariables_terrainHeight_p70 = 70"
definition TerrainVariables_terrainHeight_p80 :: real where "TerrainVariables_terrainHeight_p80 = 80"
definition TerrainVariables_terrainHeight_p90 :: real where "TerrainVariables_terrainHeight_p90 = 90"

section \<open>Terrain.js\<close>

subsection \<open>getTerrainHeight\<close>

definition getTerrainHeight :: "real \<Rightarrow> real \<Rightarrow> noise \<Rightarrow> real" where
  "getTerrainHeight x z nz =
     (let warpX = x + nz (x * 0.001) (z * 0.001) 50 * 128;
          warpZ = z + nz (x * 0.001) (z * 0.001) 100 * 128;
          h = 0;
          h = h + nz (warpX * 0.002) (warpZ * 0.002) 0 * 100;
          h = h + nz (warpX * 0.01) (warpZ * 0.01) 0 * 25;
          h = h + nz (warpX * 0.05) (warpZ * 0.05) 0 * 5
      in h)"

subsection \<open>The height field as the specification words it\<close>

text \<open>
  The specification describes the height sampler by two domain-warp descriptors
  (frequency, amplitude, layer) and an ordered list of octave descriptors
  (frequency scale, amplitude). These definitions follow that wording; they are compared
  with \<open>getTerrainHeight\<close> below.
\<close>

record warpDescriptor =
  warpFreq :: real
  warpAmp :: real
  warpLayer :: real

definition spec_warpX :: warpDescriptor where
  "spec_warpX = \<lparr>warpFreq = 0.001, warpAmp = 128, warpLayer = 50\<rparr>"

definition spec_warpZ :: warpDescriptor where
  "spec_warpZ = \<lparr>warpFreq = 0.001, warpAmp = 128, warpLayer = 100\<rparr>"

definition spec_octaves :: "(real \<times> real) list" where
  "spec_octaves = [(0.002, 100), (0.01, 25), (0.05, 5)]"

definition spec_warp :: "warpDescriptor \<Rightarrow> noise \<Rightarrow> real \<Rightarrow> real \<Rightarrow> real \<Rightarrow> real" where
  "spec_warp w nz c x z = c + warpAmp w * nz (x * warpFreq w) (z * warpFreq w) (warpLayer w)"

fun spec_sumOctaves :: "noise \<Rightarrow> real \<Rightarrow> real \<Rightarrow> (real \<times> real) list \<Rightarrow> real \<Rightarrow> real" where
  "spec_sumOctaves nz wx wz [] acc = acc"
| "spec_sumOctaves nz wx wz ((frequencyScale, amplitude) # os) acc =
     spec_sumOctaves nz wx wz os (acc + amplitude * nz (wx * frequencyScale) (wz * frequencyScale) 0)"

definition spec_height :: "noise \<Rightarrow> real \<Rightarrow> real \<Rightarrow> real" where
  "spec_height nz x z =
     (let wx = spec_warp spec_warpX nz x x z;
          wz = spec_warp spec_warpZ nz z x z
      in spec_sumOctaves nz wx wz spec_octaves 0)"

subsection \<open>The per-vertex computations of the Terrain constructor\<close>

definition fixedHeight :: "real \<Rightarrow> real" where
  "fixedHeight h =
     (let fixedHeight = h;
          fixedHeight = (if h > -1 \<and> h < 0 then -1 else fixedHeight);
          fixedHeight = (if h \<ge> 0 \<and> h < 1 then 1 else fixedHeight)
      in fixedHeight)"

definition terrainHex :: "real \<Rightarrow> nat" where
  "terrainHex h =
     (if h \<le> TerrainVariables_terrainHeight_m50 then ColorVariables_terrainColor_m50
      else if h \<le> TerrainVariables_terrainHeight_m40 then ColorVariables_terrainColor_m40
      else if h \<le> TerrainVariables_terrainHeight_m30 then ColorVariables_terrainColor_m30
      else if h \<le> TerrainVariables_terrainHeight_m20 then ColorVariables_terrainColor_m20
      else if h \<le> TerrainVariables_terrainHeight_m10 then ColorVariables_terrainColor_m10
      else if h \<le> TerrainVariables_terrainHeight_0 then ColorVariables_terrainColor_0
      else if h \<le> TerrainVariables_terrainHeight_p10 then ColorVariables_terrainColor_p10
      else if h \<le> TerrainVariables_terrainHeight_p20 then ColorVariables_terrainColor_p20
      else if h \<le> TerrainVariables_terrainHeight_p30 then ColorVariables_terrainColor_p30
      else if h \<le> TerrainVariables_terrainHeight_p40 then ColorVariables_terrainColor_p40
      else if h \<le> TerrainVariables_terrainHeight_p50 then ColorVariables_terrainColor_p50
      else if h \<le> TerrainVariables_terrainHeight_p60 then ColorVariables_terrainColor_p60
      else if h \<le> TerrainVariables_terrainHeight_p70 then ColorVariables_terrainColor_p70
      else if h \<le> TerrainVariables_terrainHeight_p80 then ColorVariables_terrainColor_p80
      else if h \<le> TerrainVariables_terrainHeight_p90 then ColorVariables_terrainColor_p90
      else ColorVariables_terrainColor_p100)"

text \<open>The pair (metalness, roughness) pushed for a vertex of height \<open>h\<close>.\<close>

definition surfaceMaterial :: "real \<Rightarrow> real \<times> real" where
  "surfaceMaterial h =
     (if h \<le> 0 then (ColorVariables_waterMetalness, ColorVariables_waterRoughness)
      else (ColorVariables_landMetalness, ColorVariables_landRoughness))"

subsection \<open>The classifier as the specification words it\<close>

text \<open>
  An ordered table of (inclusive upper bound, bucket) pairs with a catch-all bucket after
  the last bound; the first pair whose bound is not below the height wins.
\<close>

definition spec_table :: "(real \<times> nat) list" where
  "spec_table =
     [(-50, 0x000033), (-40, 0x001a66), (-30, 0x003399), (-20, 0x004ccf), (-10, 0x1f75ff),
      (0, 0x66ccff), (10, 0xeedc82), (20, 0xd2b48c), (30, 0x7cfc00), (40, 0x228b22),
      (50, 0x006400), (60, 0x8b7765), (70, 0xa9a9a9), (80, 0x808080), (90, 0x696969)]"

definition spec_catchAll :: nat where
  "spec_catchAll = 0xffffff"

fun spec_firstMatch :: "(real \<times> nat) list \<Rightarrow> real \<Rightarrow> nat" where
  "spec_firstMatch [] h = spec_catchAll"
| "spec_firstMatch ((bound, bucket) # rest) h =
     (if h \<le> bound then bucket else spec_firstMatch rest h)"

definition spec_classify :: "real \<Rightarrow> nat" where
  "spec_classify h = spec_firstMatch spec_table h"

text \<open>The buckets of the table whose half-open interval (previous bound, bound] holds \<open>h\<close>,
  and the catch-all when \<open>h\<close> lies above the last bound.\<close>

fun spec_matching :: "real option \<Rightarrow> (real \<times> nat) list \<Rightarrow> real \<Rightarrow> nat list" where
  "spec_matching prev [] h =
     (case prev of None \<Rightarrow> [spec_catchAll]
      | Some lo \<Rightarrow> (if lo < h then [spec_catchAll] else []))"
| "spec_matching prev ((bound, bucket) # rest) h =
     (if (case prev of None \<Rightarrow> True | Some lo \<Rightarrow> lo < h) \<and> h \<le> bound
      then bucket # spec_matching (Some bound) rest h
      else spec_matching (Some bound) rest h)"

definition spec_isSubmerged :: "real \<Rightarrow> bool" where
  "spec_isSubmerged h \<longleftrightarrow> h \<le> 0"

subsection \<open>The heightmap loop and the constructor\<close>

record meshAttributes =
  pos :: "vec3 list"
  colors :: "real list"
  metalnessAttr :: "real list"
  roughnessAttr :: "real list"

text \<open>One iteration of the loop over the vertices, at index \<open>i\<close>. The position attribute
  of the geometry is a \<^verbatim>\<open>Float32Array\<close>: \<^verbatim>\<open>pos.setY\<close> keeps the height rounded to single
  precision. \<^verbatim>\<open>colors\<close>, \<^verbatim>\<open>metalnessAttr\<close> and \<^verbatim>\<open>roughnessAttr\<close> are plain arrays.\<close>

definition heightmapStep :: "noise \<Rightarrow> (nat \<Rightarrow> vec3) \<Rightarrow> nat \<Rightarrow> meshAttributes \<Rightarrow> meshAttributes" where
  "heightmapStep nz toColor i st =
     (let x = getX (pos st ! i);
          z = getZ (pos st ! i);
          h = getTerrainHeight x z nz;
          c = toColor (terrainHex h)
      in st\<lparr>pos := (pos st)[i := setY (fround (fixedHeight h)) (pos st ! i)],
            colors := colors st @ [getX c, getY c, getZ c],
            metalnessAttr := metalnessAttr st @ [fst (surfaceMaterial h)],
            roughnessAttr := roughnessAttr st @ [snd (surfaceMaterial h)]\<rparr>)"

function heightmapLoop :: "noise \<Rightarrow> (nat \<Rightarrow> vec3) \<Rightarrow> nat \<Rightarrow> meshAttributes \<Rightarrow> meshAttributes" where
  "heightmapLoop nz toColor i st =
     (if i < length (pos st) then heightmapLoop nz toColor (Suc i) (heightmapStep nz toColor i st)
      else st)"
  by pat_completeness auto
termination
  by (relation "measure (\<lambda>(nz, toColor, i, st). length (pos st) - i)")
     (auto simp: heightmapStep_def Let_def)

declare heightmapLoop.simps [simp del]

record terrain =
  size_terrain :: real
  seg :: nat
  noise :: noise
  mesh :: meshAttributes

text \<open>
  The constructor, given the noise object it creates, the colour conversion and the vertex
  list of the rotated plane geometry.
\<close>

definition Terrain :: "noise \<Rightarrow> (nat \<Rightarrow> vec3) \<Rightarrow> vec3 list \<Rightarrow> terrain" where
  "Terrain nz toColor geometry =
     \<lparr>size_terrain = TerrainVariables_terrainSize,
      seg = TerrainVariables_terrainDetails,
      noise = nz,
      mesh = heightmapLoop nz toColor 0
               \<lparr>pos = geometry, colors = [], metalnessAttr = [], roughnessAttr = []\<rparr>\<rparr>"

section \<open>Drone.js: the firing system\<close>

text \<open>
  The camera is read by \<open>fire\<close> through two three.js computations, taken as given:
  \<open>forward\<close> is the value of
  \<^verbatim>\<open>new THREE.Vector3(0, 0, -1).applyQuaternion(camera.quaternion).normalize()\<close> and
  \<open>worldPosition\<close> is the vector written by \<^verbatim>\<open>camera.getWorldPosition\<close>.
\<close>

record camera =
  forward :: vec3
  worldPosition :: vec3

text \<open>
  A projectile is a mesh object. \<open>oid\<close> is the identity of the object (JavaScript
  compares objects by reference); \<open>position\<close> is \<^verbatim>\<open>proj.position\<close>, and \<open>dir\<close> and
  \<open>life\<close> are the fields of \<^verbatim>\<open>proj.userData\<close>.
\<close>

record projectile =
  oid :: nat
  position :: vec3
  dir :: vec3
  life :: real

text \<open>The transform of \<^verbatim>\<open>drone.group\<close>: its position and the yaw angle \<^verbatim>\<open>rotation.y\<close>.
  No code of the repository changes the other two Euler angles of the group.\<close>

record group =
  position_x :: real
  position_y :: real
  position_z :: real
  rotation_y :: real

text \<open>
  The state of a \<^verbatim>\<open>Drone\<close>. \<open>scene\<close> lists the identities of the projectile meshes
  among the children of the scene, in the order they were added; \<open>rotors\<close> holds
  \<^verbatim>\<open>rotation.y\<close> of each rotor; \<open>nextOid\<close> is the identity the next allocated mesh gets.
\<close>

record drone =
  scene :: "nat list"
  group :: group
  rotors :: "real list"
  projectiles :: "projectile list"
  projectileSpeed :: real
  projectileTTL :: real
  cooldown :: real
  cooldownTime :: real
  nextOid :: nat

definition Drone :: "real \<Rightarrow> real \<Rightarrow> real \<Rightarrow> drone" where
  "Drone startX startY startZ =
     \<lparr>scene = [],
      group = \<lparr>position_x = startX, position_y = startY, position_z = startZ, rotation_y = 0\<rparr>,
      rotors = [0, 0, 0, 0],
      projectiles = [],
      projectileSpeed = DroneVariables_projectileSpeed,
      projectileTTL = DroneVariables_projectileTTL,
      cooldown = DroneVariables_cooldown,
      cooldownTime = DroneVariables_cooldownTime,
      nextOid = 0\<rparr>"

text \<open>
  \<open>fire\<close> has no return statement that carries a value: each of its paths returns
  \<^verbatim>\<open>undefined\<close>, which is \<open>None\<close> here. The first component of the result is the
  returned value, the second the state of the drone after the call. The allocation
  \<^verbatim>\<open>new THREE.Mesh(projGeo, projMat)\<close> takes the identity \<open>nextOid\<close> and moves the counter
  on.
\<close>

definition fire :: "camera \<Rightarrow> string \<Rightarrow> drone \<Rightarrow> projectile option \<times> drone" where
  "fire cam mode d =
     (if cooldown d > 0 then (None, d)
      else if mode \<noteq> ''first'' then (None, d)
      else
        let d = d\<lparr>cooldown := cooldownTime d\<rparr>;
            dir = forward cam;
            muzzleWorld = worldPosition cam;
            proj = \<lparr>oid = nextOid d, position = muzzleWorld, dir = dir, life = projectileTTL d\<rparr>;
            d = d\<lparr>nextOid := Suc (nextOid d)\<rparr>;
            d = d\<lparr>scene := scene d @ [oid proj]\<rparr>;
            d = d\<lparr>projectiles := projectiles d @ [proj]\<rparr>
        in (None, d))"

text \<open>\<^verbatim>\<open>p.addScaledVector(v, s)\<close>: each component \<^verbatim>\<open>p.x += v.x * s\<close> is a product and a
  sum.\<close>

definition addScaledVector :: "vec3 \<Rightarrow> vec3 \<Rightarrow> real \<Rightarrow> vec3" where
  "addScaledVector p v s =
     (roundDouble (getX p + roundDouble (getX v * s)),
      roundDouble (getY p + roundDouble (getY v * s)),
      roundDouble (getZ p + roundDouble (getZ v * s)))"

text \<open>The first two statements of the body of the projectile loop, on projectile \<open>p\<close>.\<close>

definition advanceProjectile :: "real \<Rightarrow> real \<Rightarrow> projectile \<Rightarrow> projectile" where
  "advanceProjectile speed dt p =
     p\<lparr>position := addScaledVector (position p) (dir p) (roundDouble (speed * dt)),
       life := roundDouble (life p - dt)\<rparr>"

text \<open>\<^verbatim>\<open>xs.splice(i, 1)\<close>\<close>

definition splice1 :: "nat \<Rightarrow> 'a list \<Rightarrow> 'a list" where
  "splice1 i xs = take i xs @ drop (Suc i) xs"

text \<open>
  The loop \<^verbatim>\<open>for (let i = this.projectiles.length - 1; i >= 0; i--)\<close>. The first argument
  is \<open>i + 1\<close>, so \<open>0\<close> is the exit. Reading \<^verbatim>\<open>this.projectiles[i]\<close> beyond the end
  gives \<^verbatim>\<open>undefined\<close> and the next property access throws: that is \<open>None\<close>.
\<close>

fun projectileLoop :: "nat \<Rightarrow> real \<Rightarrow> drone \<Rightarrow> drone option" where
  "projectileLoop 0 dt d = Some d"
| "projectileLoop (Suc i) dt d =
     (if i < length (projectiles d) then
        let p = advanceProjectile (projectileSpeed d) dt (projectiles d ! i);
            d = d\<lparr>projectiles := (projectiles d)[i := p]\<rparr>
        in if life p \<le> 0
           then projectileLoop i dt
                  (d\<lparr>scene := remove1 (oid p) (scene d),
                     projectiles := splice1 i (projectiles d)\<rparr>)
           else projectileLoop i dt d
      else None)"

definition update :: "real \<Rightarrow> drone \<Rightarrow> drone option" where
  "update dt d =
     (let d = d\<lparr>rotors := map (\<lambda>r. roundDouble (r + roundDouble (dt * 40))) (rotors d)\<rparr>;
          d = (if cooldown d > 0 then d\<lparr>cooldown := max 0 (roundDouble (cooldown d - dt))\<rparr> else d)
      in projectileLoop (length (projectiles d)) dt d)"

text \<open>A run of frames: \<open>update\<close> called with each elapsed time in turn.\<close>

fun updates :: "real list \<Rightarrow> drone \<Rightarrow> drone option" where
  "updates [] d = Some d"
| "updates (dt # dts) d = (case update dt d of None \<Rightarrow> None | Some d' \<Rightarrow> updates dts d')"

text \<open>
  The calls that the application makes on the drone: the key handler calls
  \<^verbatim>\<open>drone.fire(camera, droneCamera.mode)\<close> and the animation loop calls
  \<^verbatim>\<open>drone.update(dt)\<close>. \<open>run\<close> makes a sequence of such calls and \<open>elapsed\<close> is the
  time advanced by the updates among them.
\<close>

datatype event = Fire camera string | Update real

fun run :: "event list \<Rightarrow> drone \<Rightarrow> drone option" where
  "run [] d = Some d"
| "run (Fire cam mode # es) d = run es (snd (fire cam mode d))"
| "run (Update dt # es) d = (case update dt d of None \<Rightarrow> None | Some d' \<Rightarrow> run es d')"

fun elapsed :: "event list \<Rightarrow> real" where
  "elapsed [] = 0"
| "elapsed (Fire cam mode # es) = elapsed es"
| "elapsed (Update dt # es) = dt + elapsed es"

text \<open>The frames of a sequence of calls all have an elapsed time that is not negative.\<close>

fun forwardInTime :: "event list \<Rightarrow> bool" where
  "forwardInTime [] = True"
| "forwardInTime (Fire cam mode # es) = forwardInTime es"
| "forwardInTime (Update dt # es) = (0 \<le> dt \<and> forwardInTime es)"

text \<open>The number of frames in a sequence of calls.\<close>

fun frameCount :: "event list \<Rightarrow> nat" where
  "frameCount [] = 0"
| "frameCount (Fire cam mode # es) = frameCount es"
| "frameCount (Update dt # es) = Suc (frameCount es)"

text \<open>Whether a projectile with identity \<open>k\<close> is in the live set.\<close>

definition live :: "nat \<Rightarrow> drone \<Rightarrow> bool" where
  "live k d \<longleftrightarrow> k \<in> oid ` set (projectiles d)"

text \<open>The invariant of the live set: the projectiles are distinct objects, each was
  allocated before the next allocation (identities are given out in increasing order), and
  each has life left.\<close>

definition wellFormed :: "drone \<Rightarrow> bool" where
  "wellFormed d \<longleftrightarrow>
     distinct (map oid (projectiles d)) \<and>
     (\<forall>p \<in> set (projectiles d). oid p < nextOid d \<and> 0 < life p)"

section \<open>DroneControls.js\<close>

text \<open>The key table \<^verbatim>\<open>this.keys\<close>: a key code that was never seen reads as
  \<^verbatim>\<open>undefined\<close>, which is falsy.\<close>

type_synonym keys = "string \<rightharpoonup> bool"

definition pressed :: "keys \<Rightarrow> string \<Rightarrow> bool" where
  "pressed ks code \<longleftrightarrow> ks code = Some True"


text \<open>The options object: a field that is absent reads as \<^verbatim>\<open>undefined\<close> (\<open>None\<close>).\<close>

record options =
  opt_moveSpeed :: "real option"
  opt_rotateSpeed :: "real option"
  opt_worldSize :: "real option"
  opt_heightMax :: "real option"

text \<open>The default value \<^verbatim>\<open>{}\<close> of the parameter \<^verbatim>\<open>options\<close>.\<close>

definition noOptions :: options where
  "noOptions = \<lparr>opt_moveSpeed = None, opt_rotateSpeed = None, opt_worldSize = None, opt_heightMax = None\<rparr>"

text \<open>\<^verbatim>\<open>a || b\<close> for a numeric or absent \<open>a\<close>: \<^verbatim>\<open>undefined\<close> and \<open>0\<close> are falsy.\<close>

definition jsOr :: "real option \<Rightarrow> real \<Rightarrow> real" where
  "jsOr a b = (case a of None \<Rightarrow> b | Some v \<Rightarrow> (if v = 0 then b else v))"

record droneControls =
  terrain :: terrain
  keys :: keys
  moveSpeed :: real
  rotateSpeed :: real
  worldSize :: real
  heightMax :: real
  basicMultiplier :: real
  thrustMultiplier :: real

text \<open>The constructor. The drone is not stored in the model: \<open>applyInput\<close> takes the
  drone and returns it updated.\<close>

definition DroneControls :: "terrain \<Rightarrow> options \<Rightarrow> droneControls" where
  "DroneControls terr opts =
     \<lparr>terrain = terr,
      keys = Map.empty,
      moveSpeed = jsOr (opt_moveSpeed opts) DroneVariables_moveSpeed,
      rotateSpeed = jsOr (opt_rotateSpeed opts) DroneVariables_rotateSpeed,
      worldSize = jsOr (Some (jsOr (opt_worldSize opts) (size_terrain terr))) TerrainVariables_terrainSize,
      heightMax = jsOr (opt_heightMax opts) DroneVariables_heightMax,
      basicMultiplier = DroneVariables_basicMultiplier,
      thrustMultiplier = DroneVariables_thrustMultiplier\<rparr>"

text \<open>
  \<^verbatim>\<open>translateZ\<close> and \<^verbatim>\<open>translateX\<close> of three.js move an object along its local axis: the
  axis is rotated by the object's quaternion and scaled by the distance. For an object
  turned by the angle \<open>rotation_y\<close> about the Y axis only, the local Z axis is
  \<open>(sin, 0, cos)\<close> and the local X axis is \<open>(cos, 0, - sin)\<close> of that angle.
\<close>

definition translateZ :: "real \<Rightarrow> group \<Rightarrow> group" where
  "translateZ distance g =
     g\<lparr>position_x := position_x g + sin (rotation_y g) * distance,
       position_z := position_z g + cos (rotation_y g) * distance\<rparr>"

definition translateX :: "real \<Rightarrow> group \<Rightarrow> group" where
  "translateX distance g =
     g\<lparr>position_x := position_x g + cos (rotation_y g) * distance,
       position_z := position_z g - sin (rotation_y g) * distance\<rparr>"

text \<open>The speed selection and the translation, rotation and altitude controls of
  \<open>applyInput\<close>, on the transform of the drone.\<close>

definition applyControls :: "droneControls \<Rightarrow> real \<Rightarrow> group \<Rightarrow> group" where
  "applyControls c dt g =
     (let multiplier = (if pressed (keys c) ''ShiftLeft'' \<or> pressed (keys c) ''ShiftRight''
                        then thrustMultiplier c else basicMultiplier c);
          move = moveSpeed c * dt * multiplier;
          rot = rotateSpeed c * dt;
          g = (if pressed (keys c) ''KeyW'' then translateZ (- move) g else g);
          g = (if pressed (keys c) ''KeyS'' then translateZ move g else g);
          g = (if pressed (keys c) ''KeyQ'' then translateX (- move) g else g);
          g = (if pressed (keys c) ''KeyE'' then translateX move g else g);
          g = (if pressed (keys c) ''KeyA'' then g\<lparr>rotation_y := rotation_y g + rot\<rparr> else g);
          g = (if pressed (keys c) ''KeyD'' then g\<lparr>rotation_y := rotation_y g - rot\<rparr> else g);
          g = (if pressed (keys c) ''Space'' then g\<lparr>position_y := position_y g + move\<rparr> else g);
          g = (if pressed (keys c) ''ControlLeft'' \<or> pressed (keys c) ''ControlRight''
               then g\<lparr>position_y := position_y g - move\<rparr> else g)
      in g)"

text \<open>The bound of the world boundary clamp.\<close>

definition half :: "droneControls \<Rightarrow> real" where
  "half c =
     roundDouble (worldSize c /
       roundDouble (TerrainVariables_terrainBorderFactor + TerrainVariables_terrainBorderDelimiter))"

text \<open>The lower bound of the altitude clamp at the point \<open>(x, z)\<close>.\<close>

definition minHeight :: "droneControls \<Rightarrow> real \<Rightarrow> real \<Rightarrow> real" where
  "minHeight c x z =
     (let groundHeight = getTerrainHeight x z (noise (terrain c))
      in max DroneVariables_nullPoint (groundHeight + DroneVariables_minAboveGround))"

definition applyInput :: "droneControls \<Rightarrow> real \<Rightarrow> drone \<Rightarrow> drone" where
  "applyInput c dt d =
     (let g = applyControls c dt (group d);
          g = g\<lparr>position_x := max (- half c) (min (half c) (position_x g))\<rparr>;
          g = g\<lparr>position_z := max (- half c) (min (half c) (position_z g))\<rparr>;
          g = g\<lparr>position_y := max (minHeight c (position_x g) (position_z g))
                                 (min (heightMax c) (position_y g))\<rparr>
      in d\<lparr>group := g\<rparr>)"



section \<open>Unfolding rules for the configuration\<close>

lemmas TerrainHeight_defs =
  TerrainVariables_terrainHeight_m50_def TerrainVariables_terrainHeight_m40_def
  TerrainVariables_terrainHeight_m30_def TerrainVariables_terrainHeight_m20_def
  TerrainVariables_terrainHeight_m10_def TerrainVariables_terrainHeight_0_def
  TerrainVariables_terrainHeight_p10_def TerrainVariables_terrainHeight_p20_def
  TerrainVariables_terrainHeight_p30_def TerrainVariables_terrainHeight_p40_def
  TerrainVariables_terrainHeight_p50_def TerrainVariables_terrainHeight_p60_def
  TerrainVariables_terrainHeight_p70_def TerrainVariables_terrainHeight_p80_def
  TerrainVariables_terrainHeight_p90_def

lemmas terrainColor_defs =
  ColorVariables_terrainColor_m50_def ColorVariables_terrainColor_m40_def
  ColorVariables_terrainColor_m30_def ColorVariables_terrainColor_m20_def
  ColorVariables_terrainColor_m10_def ColorVariables_terrainColor_0_def
  ColorVariables_terrainColor_p10_def ColorVariables_terrainColor_p20_def
  ColorVariables_terrainColor_p30_def ColorVariables_terrainColor_p40_def
  ColorVariables_terrainColor_p50_def ColorVariables_terrainColor_p60_def
  ColorVariables_terrainColor_p70_def ColorVariables_terrainColor_p80_def
  ColorVariables_terrainColor_p90_def ColorVariables_terrainColor_p100_def

lemmas material_defs =
  ColorVariables_landMetalness_def ColorVariables_landRoughness_def
  ColorVariables_waterMetalness_def ColorVariables_waterRoughness_def

section \<open>Rounding\<close>

lemma roundTiesToEven_of_int: "roundTiesToEven (of_int n) = n"
  by (simp add: roundTiesToEven_def)

lemma roundTiesToEven_near: "\<bar>of_int (roundTiesToEven y) - y\<bar> \<le> 1 / 2"
proof -
  have "of_int \<lfloor>y\<rfloor> \<le> y" "y < of_int \<lfloor>y\<rfloor> + 1" by linarith+
  then show ?thesis
    by (auto simp: roundTiesToEven_def Let_def)
qed

lemma roundTiesToEven_sign:
  "y \<le> 0 \<Longrightarrow> roundTiesToEven y \<le> 0" "0 \<le> y \<Longrightarrow> 0 \<le> roundTiesToEven y"
proof -
  have f: "of_int \<lfloor>y\<rfloor> \<le> y" "y < of_int \<lfloor>y\<rfloor> + 1" by linarith+
  show "y \<le> 0 \<Longrightarrow> roundTiesToEven y \<le> 0"
  proof -
    assume y: "y \<le> 0"
    show ?thesis
    proof (cases "\<lfloor>y\<rfloor> = 0")
      case True
      with f y have "y = 0" by simp
      then show ?thesis by (simp add: roundTiesToEven_def)
    next
      case False
      moreover have "\<lfloor>y\<rfloor> \<le> 0" using y by simp
      ultimately have "\<lfloor>y\<rfloor> + 1 \<le> 0" by linarith
      then show ?thesis by (auto simp: roundTiesToEven_def Let_def)
    qed
  qed
  show "0 \<le> y \<Longrightarrow> 0 \<le> roundTiesToEven y"
  proof -
    assume "0 \<le> y"
    then have "0 \<le> \<lfloor>y\<rfloor>" by simp
    then show ?thesis by (auto simp: roundTiesToEven_def Let_def)
  qed
qed

text \<open>The spacing of the grid at \<open>x\<close>.\<close>

lemma roundBinary_unfold:
  "x \<noteq> 0 \<Longrightarrow>
   roundBinary p emin x =
     2 powr of_int (max emin \<lfloor>log 2 \<bar>x\<bar>\<rfloor> - int p + 1)
     * of_int (roundTiesToEven (x / 2 powr of_int (max emin \<lfloor>log 2 \<bar>x\<bar>\<rfloor> - int p + 1)))"
  by (simp add: roundBinary_def Let_def)

lemma roundBinary_sign:
  "x \<le> 0 \<Longrightarrow> roundBinary p emin x \<le> 0" "0 \<le> x \<Longrightarrow> 0 \<le> roundBinary p emin x"
proof -
  show "x \<le> 0 \<Longrightarrow> roundBinary p emin x \<le> 0"
  proof (cases "x = 0")
    case True then show ?thesis by (simp add: roundBinary_def)
  next
    case False
    assume "x \<le> 0"
    then have "x / 2 powr of_int (max emin \<lfloor>log 2 \<bar>x\<bar>\<rfloor> - int p + 1) \<le> 0"
      by (simp add: divide_nonpos_pos)
    then have "roundTiesToEven (x / 2 powr of_int (max emin \<lfloor>log 2 \<bar>x\<bar>\<rfloor> - int p + 1)) \<le> 0"
      by (rule roundTiesToEven_sign)
    then show ?thesis
      unfolding roundBinary_unfold [OF False]
      by (simp add: mult_le_0_iff)
  qed
  show "0 \<le> x \<Longrightarrow> 0 \<le> roundBinary p emin x"
  proof (cases "x = 0")
    case True then show ?thesis by (simp add: roundBinary_def)
  next
    case False
    assume "0 \<le> x"
    then have "0 \<le> x / 2 powr of_int (max emin \<lfloor>log 2 \<bar>x\<bar>\<rfloor> - int p + 1)"
      by simp
    then have "0 \<le> roundTiesToEven (x / 2 powr of_int (max emin \<lfloor>log 2 \<bar>x\<bar>\<rfloor> - int p + 1))"
      by (rule roundTiesToEven_sign)
    then show ?thesis
      unfolding roundBinary_unfold [OF False] by simp
  qed
qed

lemma powr2_floor_log_le:
  assumes "x \<noteq> 0"
  shows "2 powr of_int \<lfloor>log 2 \<bar>x\<bar>\<rfloor> \<le> \<bar>x\<bar>"
proof -
  have "of_int \<lfloor>log 2 \<bar>x\<bar>\<rfloor> \<le> log 2 \<bar>x\<bar>" by simp
  then have "(2::real) powr of_int \<lfloor>log 2 \<bar>x\<bar>\<rfloor> \<le> 2 powr log 2 \<bar>x\<bar>"
    by (intro powr_mono) simp_all
  also have "\<dots> = \<bar>x\<bar>" using assms by simp
  finally show ?thesis .
qed

text \<open>Rounding moves a value by at most half the spacing of the grid.\<close>

lemma roundBinary_error:
  "\<bar>roundBinary p emin x - x\<bar> \<le> (\<bar>x\<bar> + 2 powr of_int emin) * 2 powr (- real p)"
proof (cases "x = 0")
  case True
  then show ?thesis by (simp add: roundBinary_def)
next
  case False
  define e where "e = max emin \<lfloor>log 2 \<bar>x\<bar>\<rfloor>"
  define u :: real where "u = 2 powr of_int (e - int p + 1)"
  have u: "0 < u" by (simp add: u_def)
  have r: "roundBinary p emin x = u * of_int (roundTiesToEven (x / u))"
    unfolding u_def e_def by (rule roundBinary_unfold [OF False])
  have "\<bar>roundBinary p emin x - x\<bar> = u * \<bar>of_int (roundTiesToEven (x / u)) - x / u\<bar>"
  proof -
    have "roundBinary p emin x - x = u * (of_int (roundTiesToEven (x / u)) - x / u)"
      unfolding r using u by (simp add: algebra_simps)
    then show ?thesis using u by (simp add: abs_mult)
  qed
  also have "\<dots> \<le> u * (1 / 2)"
    using roundTiesToEven_near [of "x / u"] u by (intro mult_left_mono) simp_all
  also have "\<dots> = 2 powr of_int e * 2 powr (- real p)"
  proof -
    have "of_int (e - int p + 1) = of_int e + (- real p) + (1::real)" by simp
    then have "u = 2 powr of_int e * 2 powr (- real p) * 2"
      unfolding u_def by (simp only: powr_add) simp
    then show ?thesis by simp
  qed
  also have "\<dots> \<le> (\<bar>x\<bar> + 2 powr of_int emin) * 2 powr (- real p)"
  proof -
    have "2 powr of_int e \<le> \<bar>x\<bar> + 2 powr of_int emin"
    proof (cases "emin \<le> \<lfloor>log 2 \<bar>x\<bar>\<rfloor>")
      case True
      then have "e = \<lfloor>log 2 \<bar>x\<bar>\<rfloor>" by (simp add: e_def)
      then have "2 powr of_int e \<le> \<bar>x\<bar>"
        using powr2_floor_log_le [OF \<open>x \<noteq> 0\<close>] by simp
      then show ?thesis by (simp add: add_increasing2)
    next
      case False
      then have "e = emin" by (simp add: e_def)
      then show ?thesis by simp
    qed
    then show ?thesis by (intro mult_right_mono) simp_all
  qed
  finally show ?thesis .
qed

lemma floor_log2_eq:
  assumes "2 powr of_int e \<le> \<bar>x\<bar>" and "\<bar>x\<bar> < 2 powr of_int (e + 1)"
  shows "\<lfloor>log 2 \<bar>x\<bar>\<rfloor> = e"
proof -
  have pos: "0 < \<bar>x\<bar>"
    using assms(1) by (smt (verit) powr_gt_zero)
  have "of_int e \<le> log 2 \<bar>x\<bar>"
    using assms(1) pos by (simp add: le_log_iff)
  moreover have "log 2 \<bar>x\<bar> < of_int e + 1"
    using assms(2) pos by (simp add: log_less_iff)
  ultimately show ?thesis
    by (simp add: floor_eq_iff)
qed

text \<open>Rounding at a known exponent.\<close>

lemma roundBinary_at:
  assumes "2 powr of_int e \<le> \<bar>x\<bar>" and "\<bar>x\<bar> < 2 powr of_int (e + 1)" and "emin \<le> e"
  shows "roundBinary p emin x =
           2 powr of_int (e - int p + 1) * of_int (roundTiesToEven (x / 2 powr of_int (e - int p + 1)))"
proof -
  have "x \<noteq> 0"
    using assms(1) by (smt (verit) powr_gt_zero)
  moreover have "max emin \<lfloor>log 2 \<bar>x\<bar>\<rfloor> = e"
    using floor_log2_eq [OF assms(1,2)] assms(3) by simp
  ultimately show ?thesis
    by (simp add: roundBinary_unfold)
qed

text \<open>A value on the grid is not moved: \<open>m * 2 ^ k\<close> with a significand \<open>m\<close> of fewer than
  \<open>p\<close> bits and an exponent \<open>k\<close> in range.\<close>

lemma roundBinary_representable:
  assumes "\<bar>m\<bar> < 2 ^ p" and "emin - int p + 1 \<le> k"
  shows "roundBinary p emin (of_int m * 2 powr of_int k) = of_int m * 2 powr of_int k"
proof (cases "m = 0")
  case True
  then show ?thesis by (simp add: roundBinary_def)
next
  case False
  define x :: real where "x = of_int m * 2 powr of_int k"
  have x0: "x \<noteq> 0" using False by (simp add: x_def)
  define e where "e = max emin \<lfloor>log 2 \<bar>x\<bar>\<rfloor>"
  define j where "j = k - (e - int p + 1)"
  have "\<bar>x\<bar> < 2 powr of_int (int p + k)"
  proof -
    have "\<bar>real_of_int m\<bar> < 2 ^ p"
      using assms(1) by (metis of_int_abs of_int_less_numeral_power_cancel_iff)
    then have "\<bar>x\<bar> < 2 ^ p * 2 powr of_int k"
      unfolding x_def abs_mult by (simp add: mult_strict_right_mono)
    also have "\<dots> = 2 powr of_int (int p + k)"
      by (simp add: powr_add powr_realpow)
    finally show ?thesis .
  qed
  then have "log 2 \<bar>x\<bar> < of_int (int p + k)"
    using x0 by (simp add: log_less_iff)
  then have "\<lfloor>log 2 \<bar>x\<bar>\<rfloor> < int p + k"
    by (simp add: floor_less_iff)
  then have "e \<le> int p + k - 1"
    using assms(2) by (simp add: e_def)
  then have j: "0 \<le> j" by (simp add: j_def)
  define u :: real where "u = 2 powr of_int (e - int p + 1)"
  have u: "0 < u" by (simp add: u_def)
  have "x / u = of_int m * 2 powr of_int j"
  proof -
    have "of_int k = of_int j + (of_int (e - int p + 1) :: real)"
      by (simp add: j_def)
    then have "(2::real) powr of_int k = 2 powr of_int j * u"
      unfolding u_def by (simp only: powr_add)
    then show ?thesis using u by (simp add: x_def)
  qed
  also have "\<dots> = of_int (m * 2 ^ nat j)"
  proof -
    have "(2::real) powr of_int j = 2 ^ nat j"
      using j by (simp add: powr_realpow [symmetric])
    then show ?thesis by simp
  qed
  finally have q: "x / u = of_int (m * 2 ^ nat j)" .
  have "roundBinary p emin x = u * of_int (roundTiesToEven (x / u))"
    unfolding u_def e_def by (rule roundBinary_unfold [OF x0])
  also have "\<dots> = u * (x / u)"
    unfolding q roundTiesToEven_of_int ..
  also have "\<dots> = x" using u by simp
  finally show ?thesis unfolding x_def .
qed

lemma roundBinary_of_int:
  "\<bar>m\<bar> < 2 ^ p \<Longrightarrow> emin - int p + 1 \<le> 0 \<Longrightarrow> roundBinary p emin (of_int m) = of_int m"
  using roundBinary_representable [of m p emin 0] by simp

lemma roundDouble_dyadic:
  assumes "\<bar>m\<bar> < 2 ^ 53" and "n \<le> 1074"
  shows "roundDouble (of_int m / 2 ^ n) = of_int m / 2 ^ n"
proof -
  have "(2::real) powr of_int (- int n) = 1 / 2 ^ n"
    by (simp add: powr_minus powr_realpow divide_inverse)
  then have "of_int m / 2 ^ n = of_int m * (2::real) powr of_int (- int n)"
    by simp
  moreover have "roundBinary 53 (- 1022) (of_int m * 2 powr of_int (- int n))
      = of_int m * 2 powr of_int (- int n)"
    using assms by (intro roundBinary_representable) simp_all
  ultimately show ?thesis by (simp add: roundDouble_def)
qed

lemma fround_of_int: "\<bar>m\<bar> < 2 ^ 24 \<Longrightarrow> fround (of_int m) = of_int m"
  unfolding fround_def by (rule roundBinary_of_int) simp_all

text \<open>Above the subnormal range the error of rounding is relative.\<close>

lemma roundBinary_error_normal:
  assumes "2 powr of_int emin \<le> \<bar>x\<bar>"
  shows "\<bar>roundBinary p emin x - x\<bar> \<le> \<bar>x\<bar> * 2 powr (- real p)"
proof -
  have x0: "x \<noteq> 0"
    using assms by (smt (verit) powr_gt_zero)
  have "of_int emin \<le> log 2 \<bar>x\<bar>"
    using assms x0 by (simp add: le_log_iff)
  then have f: "emin \<le> \<lfloor>log 2 \<bar>x\<bar>\<rfloor>"
    by (simp add: le_floor_iff)
  define e where "e = \<lfloor>log 2 \<bar>x\<bar>\<rfloor>"
  define u :: real where "u = 2 powr of_int (e - int p + 1)"
  have u: "0 < u" by (simp add: u_def)
  have m: "max emin \<lfloor>log 2 \<bar>x\<bar>\<rfloor> = e"
    using f by (simp add: e_def)
  have r: "roundBinary p emin x = u * of_int (roundTiesToEven (x / u))"
    unfolding u_def using roundBinary_unfold [OF x0, of p emin] by (simp only: m)
  have "\<bar>roundBinary p emin x - x\<bar> = u * \<bar>of_int (roundTiesToEven (x / u)) - x / u\<bar>"
  proof -
    have "roundBinary p emin x - x = u * (of_int (roundTiesToEven (x / u)) - x / u)"
      unfolding r using u by (simp add: algebra_simps)
    then show ?thesis using u by (simp add: abs_mult)
  qed
  also have "\<dots> \<le> u * (1 / 2)"
    using roundTiesToEven_near [of "x / u"] u by (intro mult_left_mono) simp_all
  also have "\<dots> = 2 powr of_int e * 2 powr (- real p)"
  proof -
    have "of_int (e - int p + 1) = of_int e + (- real p) + (1::real)" by simp
    then have "u = 2 powr of_int e * 2 powr (- real p) * 2"
      unfolding u_def by (simp only: powr_add) simp
    then show ?thesis by simp
  qed
  also have "\<dots> \<le> \<bar>x\<bar> * 2 powr (- real p)"
    using powr2_floor_log_le [OF x0] unfolding e_def by (intro mult_right_mono) simp_all
  finally show ?thesis .
qed

lemma roundDouble_error:
  "\<bar>roundDouble x - x\<bar> \<le> (\<bar>x\<bar> + 2 powr (- 1022)) * 2 powr (- 53)"
  using roundBinary_error [of 53 "- 1022" x] by (simp add: roundDouble_def)

lemma roundDouble_sign:
  "x \<le> 0 \<Longrightarrow> roundDouble x \<le> 0" "0 \<le> x \<Longrightarrow> 0 \<le> roundDouble x"
  by (simp_all add: roundDouble_def roundBinary_sign)

lemma two_powr_minus: "(2::real) powr (- real n) = 1 / 2 ^ n"
  by (simp add: powr_minus powr_realpow inverse_eq_divide)

lemma fround_error:
  assumes "1 \<le> \<bar>x\<bar>"
  shows "\<bar>fround x - x\<bar> \<le> \<bar>x\<bar> / 2 ^ 24"
proof -
  have "(2::real) powr of_int (- 126) \<le> 2 powr 0"
    by (intro powr_mono) simp_all
  then have "2 powr of_int (- 126) \<le> \<bar>x\<bar>"
    using assms by simp
  then have "\<bar>fround x - x\<bar> \<le> \<bar>x\<bar> * 2 powr (- real 24)"
    unfolding fround_def by (rule roundBinary_error_normal)
  then show ?thesis
    unfolding two_powr_minus by simp
qed

section \<open>The height function\<close>

lemma getTerrainHeight_constNoise: "getTerrainHeight x z (constNoise c) = 130 * c"
  by (simp add: getTerrainHeight_def constNoise_def Let_def)

text \<open>
  Claim C7. For every \<open>(x, z)\<close> and every noise field, \<open>getTerrainHeight\<close> is the two-step
  formula of the specification: the coordinates are warped with noise sampled at the
  unwarped coordinates times the warp frequency 0.001, on layer 50 for x and layer 100 for
  z, with amplitude 128; the result is the plain sum, over the octaves
  (0.002, 100), (0.01, 25), (0.05, 5), of amplitude times the noise at the warped
  coordinates times the frequency scale, on layer 0.
\<close>

theorem getTerrainHeight_is_warped_octave_sum:
  "getTerrainHeight x z nz = spec_height nz x z"
  by (simp add: getTerrainHeight_def spec_height_def spec_warp_def spec_warpX_def spec_warpZ_def
      spec_octaves_def Let_def mult.commute)

section \<open>Elevation classification\<close>

text \<open>
  Claim C8. The colour selection of the constructor is the first-match lookup over the
  ordered threshold table with inclusive upper bounds. For every height exactly one bucket
  matches by its interval (previous bound, bound], and it is the selected one; a height
  equal to a threshold selects the bucket of that threshold (the lower one); the catch-all
  is selected exactly for the heights above the last threshold 90; and the water surface
  parameters are pushed exactly when the height is at most 0.
\<close>

theorem elevation_classification_first_match:
  "terrainHex h = spec_classify h \<and>
   spec_matching None spec_table h = [terrainHex h] \<and>
   map (\<lambda>(bound, bucket). terrainHex bound) spec_table = map snd spec_table \<and>
   (terrainHex h = ColorVariables_terrainColor_p100 \<longleftrightarrow> TerrainVariables_terrainHeight_p90 < h) \<and>
   (surfaceMaterial h = (ColorVariables_waterMetalness, ColorVariables_waterRoughness)
      \<longleftrightarrow> spec_isSubmerged h) \<and>
   (spec_isSubmerged h \<longleftrightarrow> h \<le> 0)"
proof -
  have a: "terrainHex h = spec_classify h"
    by (simp add: terrainHex_def spec_classify_def spec_table_def spec_catchAll_def
        TerrainHeight_defs terrainColor_defs)
  have b: "spec_matching None spec_table h = [terrainHex h]"
    by (simp add: terrainHex_def spec_table_def spec_catchAll_def
        TerrainHeight_defs terrainColor_defs)
  have c: "map (\<lambda>(bound, bucket). terrainHex bound) spec_table = map snd spec_table"
    by (simp add: terrainHex_def spec_table_def TerrainHeight_defs terrainColor_defs)
  have d: "terrainHex h = ColorVariables_terrainColor_p100 \<longleftrightarrow> TerrainVariables_terrainHeight_p90 < h"
    by (simp add: terrainHex_def TerrainHeight_defs terrainColor_defs)
  have e: "surfaceMaterial h = (ColorVariables_waterMetalness, ColorVariables_waterRoughness)
      \<longleftrightarrow> spec_isSubmerged h"
    by (simp add: surfaceMaterial_def spec_isSubmerged_def material_defs)
  have f: "spec_isSubmerged h \<longleftrightarrow> h \<le> 0"
    by (simp add: spec_isSubmerged_def)
  from a b c d e f show ?thesis by blast
qed

section \<open>The mesh heights and the collision height\<close>

lemma pos_heightmapStep:
  "pos (heightmapStep nz toColor i st) =
     (pos st)[i := setY (fround (fixedHeight (getTerrainHeight (getX (pos st ! i)) (getZ (pos st ! i)) nz)))
                    (pos st ! i)]"
  by (simp add: heightmapStep_def Let_def)

text \<open>The loop started at index \<open>i\<close> leaves the vertices before \<open>i\<close> alone and rewrites
  the height of each vertex from \<open>i\<close> on.\<close>

lemma pos_heightmapLoop:
  "pos (heightmapLoop nz toColor i st) =
     take i (pos st) @
     map (\<lambda>v. setY (fround (fixedHeight (getTerrainHeight (getX v) (getZ v) nz))) v) (drop i (pos st))"
proof (induction nz toColor i st rule: heightmapLoop.induct)
  case (1 nz toColor i st)
  show ?case
  proof (cases "i < length (pos st)")
    case True
    have "pos (heightmapLoop nz toColor i st) =
          pos (heightmapLoop nz toColor (Suc i) (heightmapStep nz toColor i st))"
      using True by (subst heightmapLoop.simps) simp
    also have "\<dots> = take (Suc i) (pos (heightmapStep nz toColor i st)) @
        map (\<lambda>v. setY (fround (fixedHeight (getTerrainHeight (getX v) (getZ v) nz))) v)
          (drop (Suc i) (pos (heightmapStep nz toColor i st)))"
      using "1.IH" [OF True] .
    also have "\<dots> = take i (pos st) @
        map (\<lambda>v. setY (fround (fixedHeight (getTerrainHeight (getX v) (getZ v) nz))) v) (drop i (pos st))"
      using True
      by (simp add: pos_heightmapStep take_Suc_conv_app_nth Cons_nth_drop_Suc [symmetric])
    finally show ?thesis .
  next
    case False
    then show ?thesis by (subst heightmapLoop.simps) simp
  qed
qed

lemma pos_mesh_Terrain:
  "pos (mesh (Terrain nz toColor geometry)) =
     map (\<lambda>v. setY (fround (fixedHeight (getTerrainHeight (getX v) (getZ v) nz))) v) geometry"
  by (simp add: Terrain_def pos_heightmapLoop)

lemma noise_Terrain: "noise (Terrain nz toColor geometry) = nz"
  by (simp add: Terrain_def)

lemma size_Terrain: "size_terrain (Terrain nz toColor geometry) = TerrainVariables_terrainSize"
  by (simp add: Terrain_def)

lemma terrain_DroneControls: "terrain (DroneControls terr opts) = terr"
  by (simp add: DroneControls_def)

lemma fixedHeight_cases:
  "fixedHeight h = (if -1 < h \<and> h < 0 then -1 else if 0 \<le> h \<and> h < 1 then 1 else h)"
  by (simp add: fixedHeight_def Let_def)

lemma fround_unit: "fround 1 = 1" "fround (- 1) = - 1"
  using fround_of_int [of 1] fround_of_int [of "- 1"] by simp_all

text \<open>
  A height that is not a single-precision number is not kept as it is: the binary64 number
  \<open>34896609345 / 2 ^ 29\<close> (65.00000012107193) is stored as 65.
\<close>

lemma fround_example: "fround (34896609345 / 536870912) = 65"
  using roundBinary_at [of 6 "34896609345 / 536870912" "- 126" 24]
  by (simp add: fround_def roundTiesToEven_def Let_def powr_minus)

text \<open>
  Claim C1, as stated: the Y coordinate written into the mesh at a grid point equals
  \<open>getTerrainHeight\<close> there. It fails at a vertex whose height lies strictly between -1 and
  1: with a noise field that is 0 (as lattice noise is at the origin) the height at (0, 0)
  is 0 and the vertex is written at height 1.
\<close>

theorem mesh_height_counterexample:
  "getY (pos (mesh (Terrain (constNoise 0) hexRGB [(0, 0, 0)])) ! 0)
     \<noteq> getTerrainHeight 0 0 (constNoise 0)"
  by (simp add: pos_mesh_Terrain getTerrainHeight_constNoise fixedHeight_cases fround_unit
      setY_def getY_def getX_def getZ_def)

text \<open>
  Claim C1, amended. The mesh and the collision path call the same function
  \<open>getTerrainHeight\<close> with the same noise object, at the same \<open>(x, z)\<close>. For every vertex
  \<open>i\<close> of the grid, with \<open>h\<close> the height the collision path computes at the vertex, of
  magnitude at most \<open>2 ^ 127\<close>: the vertex keeps its x and z, and the Y coordinate kept by
  the mesh is the single-precision rounding of -1 when \<open>-1 < h < 0\<close>, of 1 when
  \<open>0 \<le> h < 1\<close> and of \<open>h\<close> otherwise. So inside the open interval (-1, 1) the mesh holds
  exactly -1 or 1, which is not the collision height; outside it the mesh holds
  \<open>fround h\<close>, which differs from the collision height by at most \<open>\<bar>h\<bar> / 2 ^ 24\<close> and
  equals it exactly when \<open>h\<close> is a single-precision number.
\<close>

theorem mesh_height_vs_collision_height:
  assumes "i < length geometry"
    and "x = getX (geometry ! i)" and "z = getZ (geometry ! i)"
    and "c = DroneControls (Terrain nz toColor geometry) opts"
    and "h = getTerrainHeight x z (noise (terrain c))"
    and "v = pos (mesh (terrain c)) ! i"
    and "\<bar>h\<bar> \<le> 2 ^ 127"
  shows "getX v = x \<and> getZ v = z \<and>
         getY v = fround (if -1 < h \<and> h < 0 then -1 else if 0 \<le> h \<and> h < 1 then 1 else h) \<and>
         (-1 < h \<and> h < 0 \<longrightarrow> getY v = -1 \<and> getY v \<noteq> h) \<and>
         (0 \<le> h \<and> h < 1 \<longrightarrow> getY v = 1 \<and> getY v \<noteq> h) \<and>
         (h \<le> -1 \<or> 1 \<le> h \<longrightarrow>
            getY v = fround h \<and> \<bar>getY v - h\<bar> \<le> \<bar>h\<bar> / 2 ^ 24 \<and> (getY v = h \<longleftrightarrow> fround h = h)) \<and>
         \<bar>getY v - h\<bar> \<le> max 1 (\<bar>h\<bar> / 2 ^ 24)"
proof -
  have v: "v = setY (fround (fixedHeight h)) (geometry ! i)"
    using assms by (simp add: terrain_DroneControls pos_mesh_Terrain noise_Terrain)
  have y: "getY v = fround (fixedHeight h)"
    unfolding v by (simp add: setY_def getY_def)
  have xz: "getX v = x \<and> getZ v = z"
    unfolding v using assms(2,3) by (simp add: setY_def getX_def getZ_def)
  have 1: "getY v = fround (if -1 < h \<and> h < 0 then -1 else if 0 \<le> h \<and> h < 1 then 1 else h)"
    unfolding y fixedHeight_cases ..
  have 2: "-1 < h \<and> h < 0 \<longrightarrow> getY v = -1 \<and> getY v \<noteq> h"
    unfolding y fixedHeight_cases by (simp add: fround_unit)
  have 3: "0 \<le> h \<and> h < 1 \<longrightarrow> getY v = 1 \<and> getY v \<noteq> h"
    unfolding y fixedHeight_cases by (simp add: fround_unit)
  have 4: "h \<le> -1 \<or> 1 \<le> h \<longrightarrow>
            getY v = fround h \<and> \<bar>getY v - h\<bar> \<le> \<bar>h\<bar> / 2 ^ 24 \<and> (getY v = h \<longleftrightarrow> fround h = h)"
  proof
    assume a: "h \<le> -1 \<or> 1 \<le> h"
    then have f: "fixedHeight h = h"
      unfolding fixedHeight_cases by auto
    have "1 \<le> \<bar>h\<bar>" using a by auto
    then have "\<bar>fround h - h\<bar> \<le> \<bar>h\<bar> / 2 ^ 24"
      by (rule fround_error)
    then show "getY v = fround h \<and> \<bar>getY v - h\<bar> \<le> \<bar>h\<bar> / 2 ^ 24 \<and> (getY v = h \<longleftrightarrow> fround h = h)"
      unfolding y f by simp
  qed
  have 5: "\<bar>getY v - h\<bar> \<le> max 1 (\<bar>h\<bar> / 2 ^ 24)"
  proof (cases "h \<le> -1 \<or> 1 \<le> h")
    case True
    with 4 have "\<bar>getY v - h\<bar> \<le> \<bar>h\<bar> / 2 ^ 24" by blast
    then show ?thesis by (rule max.coboundedI2)
  next
    case False
    then have "\<bar>getY v - h\<bar> \<le> 1"
      using 2 3 by (cases "h < 0") auto
    then show ?thesis by (rule max.coboundedI1)
  qed
  from xz 1 2 3 4 5 show ?thesis by blast
qed

theorem mesh_height_vs_collision_height_witness:
  "getY (pos (mesh (Terrain (constNoise (1/2)) hexRGB [(32, 0, 64)])) ! 0) = 65 \<and>
   getTerrainHeight 32 64 (constNoise (1/2)) = 65"
  using mesh_height_vs_collision_height [of 0 "[(32, 0, 64)]" 32 64
      "DroneControls (Terrain (constNoise (1/2)) hexRGB [(32, 0, 64)]) noOptions"
      "constNoise (1/2)" hexRGB noOptions 65
      "pos (mesh (Terrain (constNoise (1/2)) hexRGB [(32, 0, 64)])) ! 0"]
    fround_of_int [of 65]
  by (simp add: getX_def getZ_def terrain_DroneControls noise_Terrain getTerrainHeight_constNoise)

section \<open>The per-frame update of the controls\<close>

lemma applyInput_x:
  "position_x (group (applyInput c dt d)) =
     max (- half c) (min (half c) (position_x (applyControls c dt (group d))))"
  by (simp add: applyInput_def Let_def)

lemma applyInput_z:
  "position_z (group (applyInput c dt d)) =
     max (- half c) (min (half c) (position_z (applyControls c dt (group d))))"
  by (simp add: applyInput_def Let_def)

lemma applyInput_y:
  "position_y (group (applyInput c dt d)) =
     max (minHeight c (position_x (group (applyInput c dt d))) (position_z (group (applyInput c dt d))))
         (min (heightMax c) (position_y (applyControls c dt (group d))))"
  by (simp add: applyInput_def Let_def)


lemma minHeight_eq:
  "minHeight c x z =
     max DroneVariables_nullPoint (getTerrainHeight x z (noise (terrain c)) + DroneVariables_minAboveGround)"
  by (simp add: minHeight_def Let_def)

lemma getTerrainHeight_le:
  assumes "\<And>x y z. \<bar>nz x y z\<bar> \<le> 1"
  shows "getTerrainHeight x z nz \<le> 130"
proof -
  let ?wx = "x + nz (x * 0.001) (z * 0.001) 50 * 128"
  let ?wz = "z + nz (x * 0.001) (z * 0.001) 100 * 128"
  have a: "nz (?wx * 0.002) (?wz * 0.002) 0 \<le> 1"
    using assms [of "?wx * 0.002" "?wz * 0.002" 0] by linarith
  have b: "nz (?wx * 0.01) (?wz * 0.01) 0 \<le> 1"
    using assms [of "?wx * 0.01" "?wz * 0.01" 0] by linarith
  have c: "nz (?wx * 0.05) (?wz * 0.05) 0 \<le> 1"
    using assms [of "?wx * 0.05" "?wz * 0.05" 0] by linarith
  have "getTerrainHeight x z nz =
      nz (?wx * 0.002) (?wz * 0.002) 0 * 100 + nz (?wx * 0.01) (?wz * 0.01) 0 * 25
      + nz (?wx * 0.05) (?wz * 0.05) 0 * 5"
    by (simp add: getTerrainHeight_def Let_def)
  with a b c show ?thesis by linarith
qed

lemma pressed_empty: "pressed Map.empty k = False"
  by (simp add: pressed_def)

lemma keys_DroneControls: "keys (DroneControls terr opts) = Map.empty"
  by (simp add: DroneControls_def)

lemma applyControls_no_keys: "keys c = Map.empty \<Longrightarrow> applyControls c dt g = g"
  by (simp add: applyControls_def Let_def pressed_def)

lemma Drone_group:
  "group (Drone startX startY startZ) =
     \<lparr>position_x = startX, position_y = startY, position_z = startZ, rotation_y = 0\<rparr>"
  by (simp add: Drone_def)

lemma DroneControls_noOptions:
  "moveSpeed (DroneControls terr noOptions) = DroneVariables_moveSpeed"
  "rotateSpeed (DroneControls terr noOptions) = DroneVariables_rotateSpeed"
  "heightMax (DroneControls terr noOptions) = DroneVariables_heightMax"
  "basicMultiplier (DroneControls terr opts) = DroneVariables_basicMultiplier"
  "thrustMultiplier (DroneControls terr opts) = DroneVariables_thrustMultiplier"
  by (simp_all add: DroneControls_def noOptions_def jsOr_def)

lemma worldSize_DroneControls_default:
  "opt_worldSize opts = None \<or> opt_worldSize opts = Some 0 \<Longrightarrow>
   worldSize (DroneControls (Terrain nz toColor geometry) opts) = TerrainVariables_terrainSize"
  by (auto simp: DroneControls_def jsOr_def size_Terrain TerrainVariables_terrainSize_def)

lemma worldSize_noOptions:
  "worldSize (DroneControls (Terrain nz toColor geometry) noOptions) = TerrainVariables_terrainSize"
  by (rule worldSize_DroneControls_default) (simp add: noOptions_def)

lemma half_keys [simp]: "half (c\<lparr>keys := ks\<rparr>) = half c"
  by (simp add: half_def)

lemma roundDouble_border: "roundDouble (17 / 8) = 17 / 8"
  using roundDouble_dyadic [of 17 3] by simp

lemma half_eq: "half c = roundDouble (worldSize c / (17 / 8))"
  by (simp add: half_def TerrainVariables_terrainBorderFactor_def
      TerrainVariables_terrainBorderDelimiter_def roundDouble_border)

text \<open>The quotient 8192 / 2.125 as a binary64 number.\<close>

lemma roundDouble_half: "roundDouble (65536 / 17) = 4238682002231055 / 1099511627776"
  using roundBinary_at [of 11 "65536 / 17" "- 1022" 53]
  by (simp add: roundDouble_def roundTiesToEven_def Let_def powr_minus)

lemma half_configured:
  "worldSize c = TerrainVariables_terrainSize \<Longrightarrow> half c = 4238682002231055 / 1099511627776"
  by (simp add: half_eq TerrainVariables_terrainSize_def roundDouble_half)



lemma clamp_at_zero: "0 \<le> h \<Longrightarrow> max (- h) (min h 0) = (0::real)"
  by simp




lemma stage_translateZ:
  "position_x (if b then translateZ m g else g) = position_x g + (if b then sin (rotation_y g) * m else 0)"
  "position_y (if b then translateZ m g else g) = position_y g"
  "position_z (if b then translateZ m g else g) = position_z g + (if b then cos (rotation_y g) * m else 0)"
  "rotation_y (if b then translateZ m g else g) = rotation_y g"
  by (simp_all add: translateZ_def)

lemma stage_translateX:
  "position_x (if b then translateX m g else g) = position_x g + (if b then cos (rotation_y g) * m else 0)"
  "position_y (if b then translateX m g else g) = position_y g"
  "position_z (if b then translateX m g else g) = position_z g - (if b then sin (rotation_y g) * m else 0)"
  "rotation_y (if b then translateX m g else g) = rotation_y g"
  by (simp_all add: translateX_def)

lemma stage_rotation:
  "position_x (if b then g\<lparr>rotation_y := r\<rparr> else g) = position_x g"
  "position_y (if b then g\<lparr>rotation_y := r\<rparr> else g) = position_y g"
  "position_z (if b then g\<lparr>rotation_y := r\<rparr> else g) = position_z g"
  "rotation_y (if b then g\<lparr>rotation_y := r\<rparr> else g) = (if b then r else rotation_y g)"
  by simp_all

lemma stage_altitude:
  "position_x (if b then g\<lparr>position_y := v\<rparr> else g) = position_x g"
  "position_y (if b then g\<lparr>position_y := v\<rparr> else g) = (if b then v else position_y g)"
  "position_z (if b then g\<lparr>position_y := v\<rparr> else g) = position_z g"
  "rotation_y (if b then g\<lparr>position_y := v\<rparr> else g) = rotation_y g"
  by simp_all

lemmas stage_simps = stage_translateZ stage_translateX stage_rotation stage_altitude




lemma position_z_applyControls:
  "position_z (applyControls c dt g) =
     position_z g
     + (if pressed (keys c) ''KeyW'' then cos (rotation_y g) * - (moveSpeed c * dt * (if pressed (keys c) ''ShiftLeft'' \<or> pressed (keys c) ''ShiftRight''
                        then thrustMultiplier c else basicMultiplier c)) else 0)
     + (if pressed (keys c) ''KeyS'' then cos (rotation_y g) * (moveSpeed c * dt * (if pressed (keys c) ''ShiftLeft'' \<or> pressed (keys c) ''ShiftRight''
                        then thrustMultiplier c else basicMultiplier c)) else 0)
     - (if pressed (keys c) ''KeyQ'' then sin (rotation_y g) * - (moveSpeed c * dt * (if pressed (keys c) ''ShiftLeft'' \<or> pressed (keys c) ''ShiftRight''
                        then thrustMultiplier c else basicMultiplier c)) else 0)
     - (if pressed (keys c) ''KeyE'' then sin (rotation_y g) * (moveSpeed c * dt * (if pressed (keys c) ''ShiftLeft'' \<or> pressed (keys c) ''ShiftRight''
                        then thrustMultiplier c else basicMultiplier c)) else 0)"
  unfolding applyControls_def Let_def
  by (simp only: stage_simps)








subsection \<open>Ground and ceiling\<close>

text \<open>
  Claim C2, as stated: after every update the height of the drone is at most \<open>heightMax\<close>.
  It fails for controls built with the option \<^verbatim>\<open>heightMax: 2\<close> over flat ground at height
  0: the lower bound of the clamp is 4, it is applied last, and the drone ends at height 4.
\<close>

theorem altitude_ceiling_counterexample:
  "\<not> position_y (group (applyInput
        (DroneControls (Terrain (constNoise 0) hexRGB []) (noOptions\<lparr>opt_heightMax := Some 2\<rparr>))
        0 (Drone 0 50 0)))
     \<le> heightMax (DroneControls (Terrain (constNoise 0) hexRGB []) (noOptions\<lparr>opt_heightMax := Some 2\<rparr>))"
  by (simp add: applyInput_y applyControls_no_keys keys_DroneControls minHeight_eq
      terrain_DroneControls noise_Terrain getTerrainHeight_constNoise
      DroneVariables_nullPoint_def DroneVariables_minAboveGround_def)
    (simp add: DroneControls_def noOptions_def jsOr_def Drone_def)

text \<open>
  Claim C2, amended. After every call of \<open>applyInput\<close>, with any elapsed time and any key
  state, the height \<open>y\<close> of the drone is at least
  \<open>max nullPoint (getTerrainHeight x z + minAboveGround)\<close> at its final \<open>(x, z)\<close>. It is at
  most \<open>heightMax\<close> whenever that lower bound is at most \<open>heightMax\<close>, and it equals the
  lower bound otherwise: the ground clamp wins over the ceiling. With the default ceiling
  2048 and a noise field with values in [-1, 1] the lower bound is at most 134, so there
  \<open>y \<le> heightMax\<close> holds.
\<close>

theorem altitude_clamp_bounds:
  assumes "d' = applyInput c dt d"
    and "x = position_x (group d')" and "y = position_y (group d')" and "z = position_z (group d')"
    and "lo = max DroneVariables_nullPoint
                (getTerrainHeight x z (noise (terrain c)) + DroneVariables_minAboveGround)"
  shows "lo \<le> y \<and>
         (lo \<le> heightMax c \<longrightarrow> y \<le> heightMax c) \<and>
         (heightMax c \<le> lo \<longrightarrow> y = lo) \<and>
         ((\<forall>u v w. \<bar>noise (terrain c) u v w\<bar> \<le> 1) \<and> heightMax c = DroneVariables_heightMax
            \<longrightarrow> y \<le> heightMax c)"
proof -
  have lo: "lo = minHeight c x z"
    using assms(5) by (simp add: minHeight_eq)
  have y: "y = max lo (min (heightMax c) (position_y (applyControls c dt (group d))))"
    unfolding lo assms(2,3,4) assms(1) by (rule applyInput_y)
  have 1: "lo \<le> y" unfolding y by simp
  have 2: "lo \<le> heightMax c \<longrightarrow> y \<le> heightMax c" unfolding y by simp
  have 3: "heightMax c \<le> lo \<longrightarrow> y = lo" unfolding y by auto
  have 4: "(\<forall>u v w. \<bar>noise (terrain c) u v w\<bar> \<le> 1) \<and> heightMax c = DroneVariables_heightMax
            \<longrightarrow> y \<le> heightMax c"
  proof
    assume h: "(\<forall>u v w. \<bar>noise (terrain c) u v w\<bar> \<le> 1) \<and> heightMax c = DroneVariables_heightMax"
    then have "getTerrainHeight x z (noise (terrain c)) \<le> 130"
      by (intro getTerrainHeight_le) simp
    then have "lo \<le> heightMax c"
      using h unfolding assms(5)
      by (simp add: DroneVariables_nullPoint_def DroneVariables_minAboveGround_def DroneVariables_heightMax_def)
    with 2 show "y \<le> heightMax c" by simp
  qed
  from 1 2 3 4 show ?thesis by blast
qed

theorem altitude_clamp_bounds_witness:
  "max 0 (getTerrainHeight 0 0 (constNoise (1 / 2)) + 4)
     \<le> position_y (group (applyInput (DroneControls (Terrain (constNoise (1 / 2)) hexRGB []) noOptions)
           (1 / 60) (Drone 0 50 0))) \<and>
   position_y (group (applyInput (DroneControls (Terrain (constNoise (1 / 2)) hexRGB []) noOptions)
           (1 / 60) (Drone 0 50 0))) \<le> 2048"
  using altitude_clamp_bounds [of
      "applyInput (DroneControls (Terrain (constNoise (1 / 2)) hexRGB []) noOptions) (1 / 60) (Drone 0 50 0)"
      "DroneControls (Terrain (constNoise (1 / 2)) hexRGB []) noOptions" "1 / 60" "Drone 0 50 0"
      0 "position_y (group (applyInput (DroneControls (Terrain (constNoise (1 / 2)) hexRGB []) noOptions)
           (1 / 60) (Drone 0 50 0)))" 0 69]
  by (simp add: applyInput_x applyInput_z applyControls_no_keys keys_DroneControls Drone_group
      terrain_DroneControls noise_Terrain getTerrainHeight_constNoise DroneControls_noOptions
      DroneVariables_nullPoint_def DroneVariables_minAboveGround_def DroneVariables_heightMax_def
      constNoise_def half_configured [OF worldSize_noOptions])

subsection \<open>World boundaries\<close>




section \<open>The constructor of the controls\<close>

text \<open>
  Claim C10. For every options object, a field \<open>moveSpeed\<close>, \<open>rotateSpeed\<close> or
  \<open>heightMax\<close> whose value is 0 is replaced by the default of \<^verbatim>\<open>DroneVariables\<close>; a
  \<open>worldSize\<close> of 0 is replaced by the size of the terrain when that is not 0 and by
  \<^verbatim>\<open>TerrainVariables.terrainSize\<close> otherwise, which for a terrain built by the \<open>Terrain\<close>
  constructor is \<^verbatim>\<open>TerrainVariables.terrainSize\<close> in both cases.
\<close>

theorem zero_option_replaced_by_default:
  "(opt_moveSpeed opts = Some 0 \<longrightarrow> moveSpeed (DroneControls terr opts) = DroneVariables_moveSpeed) \<and>
   (opt_rotateSpeed opts = Some 0 \<longrightarrow> rotateSpeed (DroneControls terr opts) = DroneVariables_rotateSpeed) \<and>
   (opt_heightMax opts = Some 0 \<longrightarrow> heightMax (DroneControls terr opts) = DroneVariables_heightMax) \<and>
   (opt_worldSize opts = Some 0 \<longrightarrow>
      worldSize (DroneControls terr opts) =
        (if size_terrain terr = 0 then TerrainVariables_terrainSize else size_terrain terr)) \<and>
   (opt_worldSize opts = Some 0 \<longrightarrow>
      worldSize (DroneControls (Terrain nz toColor geometry) opts) = TerrainVariables_terrainSize)"
  by (simp add: DroneControls_def jsOr_def size_Terrain TerrainVariables_terrainSize_def)

theorem zero_option_replaced_by_default_witness:
  "heightMax (DroneControls (Terrain (constNoise 0) hexRGB [])
      \<lparr>opt_moveSpeed = Some 0, opt_rotateSpeed = Some 0, opt_worldSize = Some 0, opt_heightMax = Some 0\<rparr>) = 2048 \<and>
   moveSpeed (DroneControls (Terrain (constNoise 0) hexRGB [])
      \<lparr>opt_moveSpeed = Some 0, opt_rotateSpeed = Some 0, opt_worldSize = Some 0, opt_heightMax = Some 0\<rparr>) = 32 \<and>
   rotateSpeed (DroneControls (Terrain (constNoise 0) hexRGB [])
      \<lparr>opt_moveSpeed = Some 0, opt_rotateSpeed = Some 0, opt_worldSize = Some 0, opt_heightMax = Some 0\<rparr>) = 2 \<and>
   worldSize (DroneControls (Terrain (constNoise 0) hexRGB [])
      \<lparr>opt_moveSpeed = Some 0, opt_rotateSpeed = Some 0, opt_worldSize = Some 0, opt_heightMax = Some 0\<rparr>) = 8192"
  using zero_option_replaced_by_default [of
      "\<lparr>opt_moveSpeed = Some 0, opt_rotateSpeed = Some 0, opt_worldSize = Some 0, opt_heightMax = Some 0\<rparr>"
      "Terrain (constNoise 0) hexRGB []" "constNoise 0" hexRGB "[]"]
  by (simp add: DroneVariables_heightMax_def DroneVariables_moveSpeed_def DroneVariables_rotateSpeed_def
      TerrainVariables_terrainSize_def)

section \<open>The firing system\<close>

subsection \<open>The projectile loop and the frame update in closed form\<close>

lemma oid_advanceProjectile [simp]: "oid (advanceProjectile speed dt p) = oid p"
  by (simp add: advanceProjectile_def)

lemma life_advanceProjectile [simp]:
  "life (advanceProjectile speed dt p) = roundDouble (life p - dt)"
  by (simp add: advanceProjectile_def)

text \<open>The loop entered at \<open>n\<close> has advanced the first \<open>n\<close> projectiles, dropped the expired
  ones among them from the list and from the scene, and left the rest alone.\<close>

lemma projectileLoop_closed:
  "n \<le> length (projectiles d) \<Longrightarrow>
   projectileLoop n dt d =
     Some (d\<lparr>scene := fold remove1
                 (rev (map oid (filter (\<lambda>p. life p \<le> 0)
                    (map (advanceProjectile (projectileSpeed d) dt) (take n (projectiles d))))))
                 (scene d),
             projectiles :=
               filter (\<lambda>p. 0 < life p)
                 (map (advanceProjectile (projectileSpeed d) dt) (take n (projectiles d)))
               @ drop n (projectiles d)\<rparr>)"
proof (induction n arbitrary: d)
  case 0
  then show ?case by simp
next
  case (Suc i)
  let ?ps = "projectiles d"
  let ?adv = "advanceProjectile (projectileSpeed d) dt"
  let ?p = "?adv (?ps ! i)"
  have i: "i < length ?ps" using Suc.prems by simp
  have tk: "take (Suc i) ?ps = take i ?ps @ [?ps ! i]"
    using i by (simp add: take_Suc_conv_app_nth)
  show ?case
  proof (cases "life ?p \<le> 0")
    case True
    let ?d1 = "d\<lparr>scene := remove1 (oid ?p) (scene d), projectiles := splice1 i (?ps[i := ?p])\<rparr>"
    have sp: "splice1 i (?ps[i := ?p]) = take i ?ps @ drop (Suc i) ?ps"
      by (simp add: splice1_def)
    have len: "i \<le> length (projectiles ?d1)"
      using i by (simp add: sp)
    have "projectileLoop (Suc i) dt d = projectileLoop i dt ?d1"
      using i True by (simp add: Let_def)
    also have "\<dots> = Some (?d1\<lparr>scene := fold remove1
                 (rev (map oid (filter (\<lambda>p. life p \<le> 0)
                    (map (advanceProjectile (projectileSpeed ?d1) dt) (take i (projectiles ?d1))))))
                 (scene ?d1),
             projectiles :=
               filter (\<lambda>p. 0 < life p)
                 (map (advanceProjectile (projectileSpeed ?d1) dt) (take i (projectiles ?d1)))
               @ drop i (projectiles ?d1)\<rparr>)"
      by (rule Suc.IH [OF len])
    also have "\<dots> = Some (d\<lparr>scene := fold remove1
                 (rev (map oid (filter (\<lambda>p. life p \<le> 0) (map ?adv (take (Suc i) ?ps)))))
                 (scene d),
             projectiles :=
               filter (\<lambda>p. 0 < life p) (map ?adv (take (Suc i) ?ps)) @ drop (Suc i) ?ps\<rparr>)"
      using i True by (simp add: sp tk)
    finally show ?thesis .
  next
    case False
    let ?d1 = "d\<lparr>projectiles := ?ps[i := ?p]\<rparr>"
    have len: "i \<le> length (projectiles ?d1)"
      using i by simp
    have "projectileLoop (Suc i) dt d = projectileLoop i dt ?d1"
      using i False by (simp add: Let_def)
    also have "\<dots> = Some (?d1\<lparr>scene := fold remove1
                 (rev (map oid (filter (\<lambda>p. life p \<le> 0)
                    (map (advanceProjectile (projectileSpeed ?d1) dt) (take i (projectiles ?d1))))))
                 (scene ?d1),
             projectiles :=
               filter (\<lambda>p. 0 < life p)
                 (map (advanceProjectile (projectileSpeed ?d1) dt) (take i (projectiles ?d1)))
               @ drop i (projectiles ?d1)\<rparr>)"
      by (rule Suc.IH [OF len])
    also have "\<dots> = Some (d\<lparr>scene := fold remove1
                 (rev (map oid (filter (\<lambda>p. life p \<le> 0) (map ?adv (take (Suc i) ?ps)))))
                 (scene d),
             projectiles :=
               filter (\<lambda>p. 0 < life p) (map ?adv (take (Suc i) ?ps)) @ drop (Suc i) ?ps\<rparr>)"
      using i False by (simp add: tk drop_update_cancel Cons_nth_drop_Suc [symmetric])
    finally show ?thesis .
  qed
qed

lemma update_closed:
  "update dt d =
     Some (d\<lparr>rotors := map (\<lambda>r. roundDouble (r + roundDouble (dt * 40))) (rotors d),
             cooldown := (if cooldown d > 0 then max 0 (roundDouble (cooldown d - dt)) else cooldown d),
             scene := fold remove1
                 (rev (map oid (filter (\<lambda>p. life p \<le> 0)
                    (map (advanceProjectile (projectileSpeed d) dt) (projectiles d)))))
                 (scene d),
             projectiles :=
               filter (\<lambda>p. 0 < life p)
                 (map (advanceProjectile (projectileSpeed d) dt) (projectiles d))\<rparr>)"
  by (simp add: update_def Let_def projectileLoop_closed)

lemma update_fields:
  assumes "update dt d = Some d'"
  shows "projectiles d' =
           filter (\<lambda>p. 0 < life p) (map (advanceProjectile (projectileSpeed d) dt) (projectiles d))"
    and "cooldown d' = (if cooldown d > 0 then max 0 (roundDouble (cooldown d - dt)) else cooldown d)"
    and "projectileSpeed d' = projectileSpeed d"
    and "projectileTTL d' = projectileTTL d"
    and "cooldownTime d' = cooldownTime d"
    and "nextOid d' = nextOid d"
    and "group d' = group d"
  using assms unfolding update_closed by auto

subsection \<open>Counting down in binary64\<close>

lemma tolerance_0 [simp]: "tolerance c 0 = 0"
  by (simp add: tolerance_def)

lemma tolerance_Suc:
  "tolerance c (Suc n) =
     tolerance c n + (\<bar>c\<bar> + tolerance c n + 2 powr (- 1022)) * 2 powr (- 53)"
  by (simp add: tolerance_def algebra_simps)

lemma tolerance_nonneg: "0 \<le> tolerance c n"
proof -
  have "(1::real) \<le> (1 + 2 powr (- 53)) ^ n"
    by (rule one_le_power) simp
  then show ?thesis
    by (simp add: tolerance_def)
qed

lemma tolerance_Suc_ge: "tolerance c n \<le> tolerance c (Suc n)"
proof -
  have "0 \<le> (\<bar>c\<bar> + tolerance c n + 2 powr (- 1022)) * 2 powr (- 53)"
    using tolerance_nonneg [of c n] by (intro mult_nonneg_nonneg) simp_all
  then show ?thesis
    unfolding tolerance_Suc by simp
qed

text \<open>A bound of the tolerance that can be evaluated.\<close>

lemma tolerance_le: "tolerance c n \<le> ((1 + 1 / 2 ^ 53) ^ n - 1) * (\<bar>c\<bar> + 1)"
proof -
  have u: "(2::real) powr (- 53) = 1 / 2 ^ 53"
    using two_powr_minus [of 53] by simp
  have "(2::real) powr (- 1022) \<le> 2 powr 0"
    by (intro powr_mono) simp_all
  then have t: "(2::real) powr (- 1022) \<le> 1" by simp
  have "(1::real) \<le> (1 + 1 / 2 ^ 53) ^ n"
    by (rule one_le_power) simp
  then have "0 \<le> (1 + 1 / 2 ^ 53) ^ n - (1::real)" by simp
  then show ?thesis
    unfolding tolerance_def u using t by (intro mult_left_mono) simp_all
qed

text \<open>
  One step of a countdown: a positive value \<open>v\<close> that is within the tolerance of \<open>T - s\<close>
  is lowered by \<open>dt\<close>. If the rounded result is still positive it is within the next
  tolerance of \<open>T - (s + dt)\<close>; if not, \<open>T - (s + dt)\<close> is at most the next tolerance.
\<close>

lemma countdown_step:
  assumes v: "0 < v" and near: "\<bar>v - (T - s)\<bar> \<le> tolerance T i" and dt: "0 \<le> dt" and s: "0 \<le> s"
  shows "(0 < roundDouble (v - dt) \<longrightarrow>
            \<bar>roundDouble (v - dt) - (T - (s + dt))\<bar> \<le> tolerance T (Suc i)) \<and>
         (roundDouble (v - dt) \<le> 0 \<longrightarrow> T - (s + dt) \<le> tolerance T (Suc i))"
proof -
  define x where "x = v - dt"
  define w where "w = roundDouble x"
  define E where "E = (\<bar>T\<bar> + tolerance T i + 2 powr (- 1022)) * 2 powr (- 53)"
  have next_tol: "tolerance T (Suc i) = tolerance T i + E"
    unfolding E_def by (rule tolerance_Suc)
  have tol: "0 \<le> tolerance T i" by (rule tolerance_nonneg)
  have E: "0 \<le> E"
    unfolding E_def using tol by (intro mult_nonneg_nonneg) simp_all
  have err: "\<bar>w - x\<bar> \<le> (\<bar>x\<bar> + 2 powr (- 1022)) * 2 powr (- 53)"
    unfolding w_def by (rule roundDouble_error)
  have small: "\<bar>w - x\<bar> \<le> E" if "0 < x"
  proof -
    have "x \<le> v" using dt by (simp add: x_def)
    also have "v \<le> \<bar>T\<bar> + tolerance T i" using near s by linarith
    finally have "\<bar>x\<bar> \<le> \<bar>T\<bar> + tolerance T i" using that by simp
    then have "(\<bar>x\<bar> + 2 powr (- 1022)) * 2 powr (- 53) \<le> E"
      unfolding E_def by (intro mult_right_mono) simp_all
    with err show ?thesis by linarith
  qed
  have 1: "\<bar>w - (T - (s + dt))\<bar> \<le> tolerance T (Suc i)" if "0 < w"
  proof -
    have "0 < x"
    proof (rule ccontr)
      assume "\<not> 0 < x"
      then have "w \<le> 0" unfolding w_def by (intro roundDouble_sign) simp
      with that show False by simp
    qed
    then have "\<bar>w - x\<bar> \<le> E" by (rule small)
    moreover have "w - (T - (s + dt)) = (w - x) + (v - (T - s))"
      by (simp add: x_def)
    ultimately show ?thesis
      unfolding next_tol using near by linarith
  qed
  have 2: "T - (s + dt) \<le> tolerance T (Suc i)" if "w \<le> 0"
  proof (cases "0 < x")
    case True
    then have "\<bar>w - x\<bar> \<le> E" by (rule small)
    then have "x \<le> E" using that by linarith
    moreover have "T - (s + dt) = x - (v - (T - s))"
      by (simp add: x_def)
    ultimately show ?thesis
      unfolding next_tol using near by linarith
  next
    case False
    moreover have "T - (s + dt) = x - (v - (T - s))"
      by (simp add: x_def)
    ultimately show ?thesis
      unfolding next_tol using near E by linarith
  qed
  from 1 2 show ?thesis
    unfolding w_def x_def by blast
qed

text \<open>
  A run of frames with elapsed times that are not negative returns. While the cooldown is
  positive it is within the tolerance of the start value less the time run; once it is
  not, the time run is within the tolerance of the start value or beyond it.
\<close>

lemma updates_cooldown:
  assumes "\<forall>dt \<in> set dts. 0 \<le> dt" and "0 \<le> s"
    and "(0 < cooldown d \<longrightarrow> \<bar>cooldown d - (T - s)\<bar> \<le> tolerance T i) \<and>
         (cooldown d \<le> 0 \<longrightarrow> T - s \<le> tolerance T i)"
  shows "\<exists>d'. updates dts d = Some d' \<and>
           (0 < cooldown d' \<longrightarrow>
              \<bar>cooldown d' - (T - (s + sum_list dts))\<bar> \<le> tolerance T (i + length dts)) \<and>
           (cooldown d' \<le> 0 \<longrightarrow> T - (s + sum_list dts) \<le> tolerance T (i + length dts)) \<and>
           projectileTTL d' = projectileTTL d \<and> cooldownTime d' = cooldownTime d \<and>
           nextOid d' = nextOid d"
  using assms
proof (induction dts arbitrary: d s i)
  case Nil
  then show ?case by simp
next
  case (Cons dt dts)
  obtain d1 where d1: "update dt d = Some d1"
    by (simp add: update_closed)
  note f = update_fields [OF d1]
  have dt: "0 \<le> dt" and rest: "\<forall>t \<in> set dts. 0 \<le> t"
    using Cons.prems(1) by simp_all
  have s1: "0 \<le> s + dt" using Cons.prems(2) dt by simp
  have inv1: "(0 < cooldown d1 \<longrightarrow> \<bar>cooldown d1 - (T - (s + dt))\<bar> \<le> tolerance T (Suc i)) \<and>
         (cooldown d1 \<le> 0 \<longrightarrow> T - (s + dt) \<le> tolerance T (Suc i))"
  proof (cases "0 < cooldown d")
    case True
    then have near: "\<bar>cooldown d - (T - s)\<bar> \<le> tolerance T i"
      using Cons.prems(3) by blast
    note step = countdown_step [OF True near dt Cons.prems(2)]
    show ?thesis
    proof (cases "0 < roundDouble (cooldown d - dt)")
      case pos: True
      then have "cooldown d1 = roundDouble (cooldown d - dt)"
        unfolding f(2) using True by simp
      then show ?thesis using step pos by simp
    next
      case False
      then have "cooldown d1 = 0"
        unfolding f(2) using True by simp
      then show ?thesis using step False by simp
    qed
  next
    case False
    then have c: "cooldown d1 = cooldown d"
      unfolding f(2) by simp
    have "T - s \<le> tolerance T i"
      using Cons.prems(3) False by simp
    then have "T - (s + dt) \<le> tolerance T (Suc i)"
      using dt tolerance_Suc_ge [of T i] by linarith
    then show ?thesis
      unfolding c using False by simp
  qed
  obtain d' where d': "updates dts d1 = Some d'"
    and a: "0 < cooldown d' \<longrightarrow>
              \<bar>cooldown d' - (T - (s + dt + sum_list dts))\<bar> \<le> tolerance T (Suc i + length dts)"
    and b: "cooldown d' \<le> 0 \<longrightarrow> T - (s + dt + sum_list dts) \<le> tolerance T (Suc i + length dts)"
    and others: "projectileTTL d' = projectileTTL d1" "cooldownTime d' = cooldownTime d1"
      "nextOid d' = nextOid d1"
    using Cons.IH [OF rest s1 inv1] by blast
  have run: "updates (dt # dts) d = Some d'"
    by (simp add: d1 d')
  show ?case
    using run a b others f(4-6) by (simp add: add.assoc)
qed

text \<open>For up to \<open>2 ^ 52\<close> frames the tolerance grows at most linearly with their number.\<close>

lemma tolerance_linear:
  assumes "n \<le> 2 ^ 52"
  shows "tolerance c n \<le> real n * (\<bar>c\<bar> + 1) / 2 ^ 52"
proof -
  define x :: real where "x = 1 / 2 ^ 53"
  define y where "y = real n * x"
  have x: "0 \<le> x" by (simp add: x_def)
  have "real n \<le> 2 ^ 52" using assms by (metis of_nat_le_iff of_nat_numeral of_nat_power)
  then have y: "0 \<le> y" "y \<le> 1"
    unfolding y_def x_def by simp_all
  have "(1 + x) ^ n \<le> exp x ^ n"
    using x by (intro power_mono) (simp_all add: exp_ge_add_one_self)
  also have "\<dots> = exp y"
    unfolding y_def by (simp add: exp_of_nat_mult)
  also have "\<dots> \<le> 1 + y + y\<^sup>2"
    using y by (rule exp_bound)
  also have "\<dots> \<le> 1 + 2 * y"
    using y by (simp add: power2_eq_square mult_left_le)
  finally have "(1 + x) ^ n - 1 \<le> 2 * y" by simp
  then have "((1 + x) ^ n - 1) * (\<bar>c\<bar> + 1) \<le> 2 * y * (\<bar>c\<bar> + 1)"
    by (intro mult_right_mono) simp_all
  also have "\<dots> = real n * (\<bar>c\<bar> + 1) / 2 ^ 52"
    by (simp add: y_def x_def)
  finally show ?thesis
    using tolerance_le [of c n] unfolding x_def by linarith
qed

subsection \<open>The two outcomes of fire\<close>

lemma fire_rejected:
  "0 < cooldown d \<or> mode \<noteq> ''first'' \<Longrightarrow> fire cam mode d = (None, d)"
  by (auto simp: fire_def)

lemma fire_accepted:
  "cooldown d \<le> 0 \<Longrightarrow>
   fire cam ''first'' d =
     (None, d\<lparr>scene := scene d @ [nextOid d],
              projectiles := projectiles d @
                [\<lparr>oid = nextOid d, position = worldPosition cam, dir = forward cam,
                  life = projectileTTL d\<rparr>],
              cooldown := cooldownTime d,
              nextOid := Suc (nextOid d)\<rparr>)"
  by (simp add: fire_def Let_def)

text \<open>The cooldown time 0.3 as a binary64 number.\<close>

lemma DroneVariables_cooldownTime_value:
  "DroneVariables_cooldownTime = 5404319552844595 / 18014398509481984"
  unfolding DroneVariables_cooldownTime_def
  using roundBinary_at [of "- 2" "3 / 10" "- 1022" 53]
  by (simp add: roundDouble_def roundTiesToEven_def Let_def powr_minus)

lemma Drone_fields:
  "cooldown (Drone x y z) = 0" "cooldownTime (Drone x y z) = 5404319552844595 / 18014398509481984"
  "projectileTTL (Drone x y z) = 4" "projectileSpeed (Drone x y z) = 120"
  "projectiles (Drone x y z) = []" "nextOid (Drone x y z) = 0" "scene (Drone x y z) = []"
  by (simp_all add: Drone_def DroneVariables_cooldown_def DroneVariables_cooldownTime_value
      DroneVariables_projectileTTL_def DroneVariables_projectileSpeed_def)

lemma wellFormed_Drone: "wellFormed (Drone x y z)"
  by (simp add: wellFormed_def Drone_fields)

text \<open>The invariant holds for a new drone and is kept by \<open>fire\<close> and \<open>update\<close>.\<close>

lemma wellFormed_fire:
  assumes "wellFormed d" and "0 < projectileTTL d"
  shows "wellFormed (snd (fire cam mode d))"
proof (cases "0 < cooldown d \<or> mode \<noteq> ''first''")
  case True
  then show ?thesis using assms(1) by (simp add: fire_rejected)
next
  case False
  then have c: "cooldown d \<le> 0" and m: "mode = ''first''" by auto
  show ?thesis
    unfolding m using assms by (auto simp: fire_accepted [OF c] wellFormed_def less_Suc_eq)
qed

lemma wellFormed_update:
  assumes "wellFormed d" and "update dt d = Some d'"
  shows "wellFormed d'"
proof -
  note f = update_fields [OF assms(2)]
  have "map oid (filter (\<lambda>p. 0 < life p) (map (advanceProjectile (projectileSpeed d) dt) (projectiles d)))
      = map oid (filter (\<lambda>p. 0 < roundDouble (life p - dt)) (projectiles d))"
    by (simp add: filter_map o_def)
  moreover have "distinct (map oid (filter (\<lambda>p. 0 < roundDouble (life p - dt)) (projectiles d)))"
    using assms(1) by (simp add: wellFormed_def distinct_map_filter)
  ultimately have "distinct (map oid (projectiles d'))"
    unfolding f(1) by simp
  moreover have "\<forall>p \<in> set (projectiles d'). oid p < nextOid d' \<and> 0 < life p"
    unfolding f(1) f(6) using assms(1) by (auto simp: wellFormed_def)
  ultimately show ?thesis by (simp add: wellFormed_def)
qed

lemma elapsed_nonneg: "forwardInTime es \<Longrightarrow> 0 \<le> elapsed es"
  by (induction es rule: elapsed.induct) auto

lemma fire_fields:
  "projectileSpeed (snd (fire cam mode d)) = projectileSpeed d"
  "projectileTTL (snd (fire cam mode d)) = projectileTTL d"
  "nextOid d \<le> nextOid (snd (fire cam mode d))"
  "set (projectiles d) \<subseteq> set (projectiles (snd (fire cam mode d)))"
  "oid ` set (projectiles (snd (fire cam mode d))) \<subseteq> insert (nextOid d) (oid ` set (projectiles d))"
  by (auto simp: fire_def Let_def)

text \<open>An identity that was allocated and is no longer live does not come back.\<close>

lemma run_stays_dead:
  assumes "k < nextOid d" and "\<not> live k d"
  shows "\<exists>d'. run es d = Some d' \<and> \<not> live k d'"
  using assms
proof (induction es d rule: run.induct)
  case (1 d)
  then show ?case by simp
next
  case (2 cam mode es d)
  let ?d1 = "snd (fire cam mode d)"
  have "k < nextOid ?d1"
    using "2.prems"(1) fire_fields(3) [of d cam mode] by linarith
  moreover have "\<not> live k ?d1"
    using "2.prems" fire_fields(5) [of cam mode d] by (auto simp: live_def)
  ultimately show ?case
    using "2.IH" by simp
next
  case (3 dt es d)
  obtain d1 where d1: "update dt d = Some d1"
    by (simp add: update_closed)
  note f = update_fields [OF d1]
  have "k < nextOid d1"
    using "3.prems"(1) f(6) by simp
  moreover have "\<not> live k d1"
    using "3.prems"(2) unfolding live_def f(1) by (auto simp: image_iff)
  ultimately show ?case
    using "3.IH" [OF d1] d1 by simp
qed

text \<open>
  The projectile with identity \<open>k\<close>, followed through a sequence of calls on a well-formed
  drone: while it is live its life is within the tolerance of \<open>T\<close> less the time run; once
  it is not, the time run is within the tolerance of \<open>T\<close> or beyond it.
\<close>

lemma run_tracks:
  assumes "wellFormed d" and "0 < projectileTTL d" and "k < nextOid d"
    and "forwardInTime es" and "0 \<le> s"
    and "(\<exists>p \<in> set (projectiles d). oid p = k \<and> \<bar>life p - (T - s)\<bar> \<le> tolerance T i) \<or>
         (\<not> live k d \<and> T - s \<le> tolerance T i)"
  shows "\<exists>d'. run es d = Some d' \<and> wellFormed d' \<and>
           ((\<exists>p \<in> set (projectiles d'). oid p = k \<and>
               \<bar>life p - (T - (s + elapsed es))\<bar> \<le> tolerance T (i + frameCount es)) \<or>
            (\<not> live k d' \<and> T - (s + elapsed es) \<le> tolerance T (i + frameCount es)))"
  using assms
proof (induction es d arbitrary: s i rule: run.induct)
  case (1 d)
  then show ?case by simp
next
  case (2 cam mode es d)
  let ?d1 = "snd (fire cam mode d)"
  have wf: "wellFormed ?d1"
    using "2.prems"(1,2) by (rule wellFormed_fire)
  have ttl: "0 < projectileTTL ?d1"
    using "2.prems"(2) by (simp add: fire_fields)
  have k: "k < nextOid ?d1"
    using "2.prems"(3) fire_fields(3) [of d cam mode] by linarith
  have fw: "forwardInTime es"
    using "2.prems"(4) by simp
  have inv: "(\<exists>p \<in> set (projectiles ?d1). oid p = k \<and> \<bar>life p - (T - s)\<bar> \<le> tolerance T i) \<or>
         (\<not> live k ?d1 \<and> T - s \<le> tolerance T i)"
  proof (cases "\<exists>p \<in> set (projectiles d). oid p = k \<and> \<bar>life p - (T - s)\<bar> \<le> tolerance T i")
    case True
    then show ?thesis
      using fire_fields(4) [of d cam mode] by blast
  next
    case False
    then have dead: "\<not> live k d" and far: "T - s \<le> tolerance T i"
      using "2.prems"(6) by blast+
    have "\<not> live k ?d1"
      using dead "2.prems"(3) fire_fields(5) [of cam mode d] by (auto simp: live_def)
    with far show ?thesis by blast
  qed
  show ?case
    using "2.IH" [OF wf ttl k fw "2.prems"(5) inv] by simp
next
  case (3 dt es d)
  obtain d1 where d1: "update dt d = Some d1"
    by (simp add: update_closed)
  note f = update_fields [OF d1]
  have wf: "wellFormed d1"
    using "3.prems"(1) d1 by (rule wellFormed_update)
  have ttl: "0 < projectileTTL d1"
    using "3.prems"(2) by (simp add: f)
  have k: "k < nextOid d1"
    using "3.prems"(3) by (simp add: f)
  have dt: "0 \<le> dt" and fw: "forwardInTime es"
    using "3.prems"(4) by simp_all
  have s1: "0 \<le> s + dt"
    using "3.prems"(5) dt by simp
  have inv: "(\<exists>p \<in> set (projectiles d1). oid p = k \<and>
                \<bar>life p - (T - (s + dt))\<bar> \<le> tolerance T (Suc i)) \<or>
         (\<not> live k d1 \<and> T - (s + dt) \<le> tolerance T (Suc i))"
  proof (cases "\<exists>p \<in> set (projectiles d). oid p = k \<and> \<bar>life p - (T - s)\<bar> \<le> tolerance T i")
    case True
    then obtain p where p: "p \<in> set (projectiles d)" "oid p = k"
      and near: "\<bar>life p - (T - s)\<bar> \<le> tolerance T i" by blast
    have v: "0 < life p"
      using "3.prems"(1) p(1) by (simp add: wellFormed_def)
    note step = countdown_step [OF v near dt "3.prems"(5)]
    let ?p1 = "advanceProjectile (projectileSpeed d) dt p"
    show ?thesis
    proof (cases "0 < roundDouble (life p - dt)")
      case pos: True
      have "?p1 \<in> set (projectiles d1)"
        unfolding f(1) using p(1) pos by simp
      moreover have "oid ?p1 = k" using p(2) by simp
      moreover have "\<bar>life ?p1 - (T - (s + dt))\<bar> \<le> tolerance T (Suc i)"
        using step pos by simp
      ultimately show ?thesis by blast
    next
      case False
      have others: "\<forall>q \<in> set (projectiles d). oid q = oid p \<longrightarrow> q = p"
        using "3.prems"(1) p(1) by (auto simp: wellFormed_def distinct_map inj_on_def)
      have "\<not> live k d1"
      proof
        assume "live k d1"
        then obtain q1 where q1: "q1 \<in> set (projectiles d1)" "oid q1 = k"
          unfolding live_def by blast
        then obtain q where q: "q \<in> set (projectiles d)"
          "q1 = advanceProjectile (projectileSpeed d) dt q" "0 < life q1"
          unfolding f(1) by auto
        have "oid q = oid p"
          using q1(2) q(2) p(2) by simp
        then have "q = p"
          using others q(1) by blast
        then show False
          using q(2,3) False by simp
      qed
      moreover have "T - (s + dt) \<le> tolerance T (Suc i)"
        using step False by simp
      ultimately show ?thesis by blast
    qed
  next
    case False
    then have dead: "\<not> live k d" and far: "T - s \<le> tolerance T i"
      using "3.prems"(6) by blast+
    have "\<not> live k d1"
      using dead unfolding live_def f(1) by (auto simp: image_iff)
    moreover have "T - (s + dt) \<le> tolerance T (Suc i)"
      using far dt tolerance_Suc_ge [of T i] by linarith
    ultimately show ?thesis by blast
  qed
  obtain d' where d': "run es d1 = Some d'" and wf': "wellFormed d'"
    and r: "(\<exists>p \<in> set (projectiles d'). oid p = k \<and>
               \<bar>life p - (T - (s + dt + elapsed es))\<bar> \<le> tolerance T (Suc i + frameCount es)) \<or>
            (\<not> live k d' \<and> T - (s + dt + elapsed es) \<le> tolerance T (Suc i + frameCount es))"
    using "3.IH" [OF d1 wf ttl k fw s1 inv] by blast
  show ?case
    using d1 d' wf' r by (simp add: add.assoc)
qed

text \<open>
  Claim C4, as stated: \<open>fire\<close> returns a new projectile when the cooldown has expired, and
  the caller tells rejection from success by the returned value. It fails on a new drone,
  whose cooldown is 0: the call in first-person mode creates a projectile and returns
  \<^verbatim>\<open>undefined\<close>, and the call in third-person mode creates none and returns
  \<^verbatim>\<open>undefined\<close> as well.
\<close>

theorem fire_returns_no_projectile_counterexample:
  "cooldown (Drone 0 50 0) \<le> 0 \<and>
   fst (fire \<lparr>forward = (0, 0, -1), worldPosition = (0, 50, 0)\<rparr> ''first'' (Drone 0 50 0)) = None \<and>
   length (projectiles (snd (fire \<lparr>forward = (0, 0, -1), worldPosition = (0, 50, 0)\<rparr> ''first'' (Drone 0 50 0)))) = 1 \<and>
   fst (fire \<lparr>forward = (0, 0, -1), worldPosition = (0, 50, 0)\<rparr> ''third'' (Drone 0 50 0)) = None \<and>
   length (projectiles (snd (fire \<lparr>forward = (0, 0, -1), worldPosition = (0, 50, 0)\<rparr> ''third'' (Drone 0 50 0)))) = 0"
  by (simp add: fire_def Let_def Drone_def DroneVariables_cooldown_def)

text \<open>
  Claim C4, amended. \<open>fire\<close> creates a new projectile when the cooldown has expired
  (\<open>cooldown \<le> 0\<close>) and the mode is \<^verbatim>\<open>"first"\<close>: the projectile starts at the world position
  of the camera with the forward direction of the camera and life \<open>projectileTTL\<close>, it
  is appended to the live set and to the scene, and the cooldown is set to
  \<open>cooldownTime\<close>. Otherwise all state is left unchanged. The call returns
  \<^verbatim>\<open>undefined\<close> in both cases; the caller can tell the outcomes apart by the state only:
  the live set has grown by one exactly on success and has kept its length exactly on
  rejection.
\<close>

theorem fire_outcomes:
  "fst (fire cam mode d) = None \<and>
   (cooldown d \<le> 0 \<and> mode = ''first'' \<longrightarrow>
      snd (fire cam mode d) =
        d\<lparr>scene := scene d @ [nextOid d],
          projectiles := projectiles d @
            [\<lparr>oid = nextOid d, position = worldPosition cam, dir = forward cam,
              life = projectileTTL d\<rparr>],
          cooldown := cooldownTime d,
          nextOid := Suc (nextOid d)\<rparr>) \<and>
   (0 < cooldown d \<or> mode \<noteq> ''first'' \<longrightarrow> snd (fire cam mode d) = d) \<and>
   (length (projectiles (snd (fire cam mode d))) = Suc (length (projectiles d))
      \<longleftrightarrow> cooldown d \<le> 0 \<and> mode = ''first'') \<and>
   (length (projectiles (snd (fire cam mode d))) = length (projectiles d)
      \<longleftrightarrow> 0 < cooldown d \<or> mode \<noteq> ''first'')"
proof (cases "0 < cooldown d \<or> mode \<noteq> ''first''")
  case True
  then show ?thesis
    using fire_rejected [OF True, of cam] by auto
next
  case False
  then have c: "cooldown d \<le> 0" and m: "mode = ''first''" by auto
  show ?thesis
    unfolding m using c by (simp add: fire_accepted)
qed

theorem fire_outcomes_witness:
  "snd (fire \<lparr>forward = (0, 0, -1), worldPosition = (0, 50, 0)\<rparr> ''first'' (Drone 0 50 0)) =
     (Drone 0 50 0)\<lparr>scene := [0],
        projectiles := [\<lparr>oid = 0, position = (0, 50, 0), dir = (0, 0, -1), life = 4\<rparr>],
        cooldown := 5404319552844595 / 18014398509481984, nextOid := 1\<rparr> \<and>
   snd (fire \<lparr>forward = (0, 0, -1), worldPosition = (0, 50, 0)\<rparr> ''first''
         ((Drone 0 50 0)\<lparr>cooldown := 1 / 10\<rparr>)) = (Drone 0 50 0)\<lparr>cooldown := 1 / 10\<rparr>"
  using fire_outcomes [of "\<lparr>forward = (0, 0, -1), worldPosition = (0, 50, 0)\<rparr>" "''first''" "Drone 0 50 0"]
    fire_outcomes [of "\<lparr>forward = (0, 0, -1), worldPosition = (0, 50, 0)\<rparr>" "''first''"
      "(Drone 0 50 0)\<lparr>cooldown := 1 / 10\<rparr>"]
  by (simp add: Drone_def DroneVariables_cooldown_def DroneVariables_cooldownTime_value
      DroneVariables_projectileTTL_def)

text \<open>
  Claim C9. For every call of \<open>fire\<close> with a mode other than \<^verbatim>\<open>"first"\<close>, whatever the
  cooldown, no projectile is created and the state of the drone (cooldown, live set,
  scene and the rest) is unchanged.
\<close>

theorem fire_requires_first_person:
  assumes "mode \<noteq> ''first''"
  shows "fire cam mode d = (None, d)"
  using assms by (simp add: fire_def)

theorem fire_requires_first_person_witness:
  "cooldown (Drone 0 50 0) = 0 \<and>
   fire \<lparr>forward = (0, 0, -1), worldPosition = (0, 50, 0)\<rparr> ''third'' (Drone 0 50 0)
     = (None, Drone 0 50 0)"
  using fire_requires_first_person [of "''third''" "\<lparr>forward = (0, 0, -1), worldPosition = (0, 50, 0)\<rparr>" "Drone 0 50 0"]
  by (simp add: Drone_def DroneVariables_cooldown_def)

subsection \<open>The cooldown window\<close>

text \<open>
  Claim C5, as stated: once the cumulative advanced time reaches the cooldown duration a
  subsequent \<open>fire\<close> succeeds. It fails for a call that is not in first-person mode: a
  new drone fires, a frame of 0.5 seconds (more than the cooldown time, 0.3) runs the
  cooldown down to 0, and a call with mode \<^verbatim>\<open>"third"\<close> on the resulting drone leaves it
  unchanged.
\<close>

theorem fire_after_cooldown_counterexample:
  "updates [1 / 2] (snd (fire \<lparr>forward = (0, 0, -1), worldPosition = (0, 50, 0)\<rparr> ''first'' (Drone 0 50 0)))
     = Some ((Drone 0 50 0)\<lparr>rotors := [20, 20, 20, 20], scene := [0],
          projectiles := [\<lparr>oid = 0, position = (0, 50, -60), dir = (0, 0, -1), life = 7 / 2\<rparr>],
          cooldown := 0, nextOid := 1\<rparr>) \<and>
   fire \<lparr>forward = (0, 0, -1), worldPosition = (0, 50, 0)\<rparr> ''third''
     ((Drone 0 50 0)\<lparr>rotors := [20, 20, 20, 20], scene := [0],
          projectiles := [\<lparr>oid = 0, position = (0, 50, -60), dir = (0, 0, -1), life = 7 / 2\<rparr>],
          cooldown := 0, nextOid := 1\<rparr>)
     = (None, (Drone 0 50 0)\<lparr>rotors := [20, 20, 20, 20], scene := [0],
          projectiles := [\<lparr>oid = 0, position = (0, 50, -60), dir = (0, 0, -1), life = 7 / 2\<rparr>],
          cooldown := 0, nextOid := 1\<rparr>)"
proof -
  have r: "roundDouble 0 = 0" "roundDouble 20 = 20" "roundDouble 50 = 50" "roundDouble 60 = 60"
    "roundDouble (- 60) = - 60" "roundDouble (7 / 2) = 7 / 2"
    using roundDouble_dyadic [of 0 0] roundDouble_dyadic [of 20 0] roundDouble_dyadic [of 50 0]
      roundDouble_dyadic [of 60 0] roundDouble_dyadic [of "- 60" 0] roundDouble_dyadic [of 7 1]
    by simp_all
  have "roundDouble (5404319552844595 / 18014398509481984 - 1 / 2) \<le> 0"
    by (rule roundDouble_sign) simp
  then have c: "max 0 (roundDouble (5404319552844595 / 18014398509481984 - 1 / 2)) = 0"
    by simp
  have "updates [1 / 2] (snd (fire \<lparr>forward = (0, 0, -1), worldPosition = (0, 50, 0)\<rparr> ''first'' (Drone 0 50 0)))
     = Some ((Drone 0 50 0)\<lparr>rotors := [20, 20, 20, 20], scene := [0],
          projectiles := [\<lparr>oid = 0, position = (0, 50, -60), dir = (0, 0, -1), life = 7 / 2\<rparr>],
          cooldown := 0, nextOid := 1\<rparr>)"
    unfolding updates.simps update_closed fire_def Let_def Drone_def
      DroneVariables_cooldown_def DroneVariables_cooldownTime_value
      DroneVariables_projectileTTL_def DroneVariables_projectileSpeed_def
    using c by (simp add: advanceProjectile_def addScaledVector_def getX_def getY_def getZ_def r)
  moreover have "fire \<lparr>forward = (0, 0, -1), worldPosition = (0, 50, 0)\<rparr> ''third''
     ((Drone 0 50 0)\<lparr>rotors := [20, 20, 20, 20], scene := [0],
          projectiles := [\<lparr>oid = 0, position = (0, 50, -60), dir = (0, 0, -1), life = 7 / 2\<rparr>],
          cooldown := 0, nextOid := 1\<rparr>)
     = (None, (Drone 0 50 0)\<lparr>rotors := [20, 20, 20, 20], scene := [0],
          projectiles := [\<lparr>oid = 0, position = (0, 50, -60), dir = (0, 0, -1), life = 7 / 2\<rparr>],
          cooldown := 0, nextOid := 1\<rparr>)"
    by (simp add: fire_def)
  ultimately show ?thesis by simp
qed

text \<open>
  The countdown is done in binary64, so the cooldown does not end exactly when the frame
  times add up to the cooldown time, in first-person mode either. A new drone fires and six
  frames of 0.05 seconds follow (the binary64 number \<open>3602879701896397 / 2 ^ 56\<close>). The
  frame times add up to more than the cooldown time (the binary64 number
  \<open>5404319552844595 / 2 ^ 54\<close>), yet the cooldown is still \<open>2 ^ - 56\<close> and a call of \<open>fire\<close>
  in first-person mode creates nothing.
\<close>

lemma updates_cooldown_fold:
  "\<exists>d'. updates dts d = Some d' \<and>
     cooldown d' = fold (\<lambda>dt c. if c > 0 then max 0 (roundDouble (c - dt)) else c) dts (cooldown d)"
proof (induction dts arbitrary: d)
  case Nil
  then show ?case by simp
next
  case (Cons dt dts)
  obtain d1 where d1: "update dt d = Some d1"
    by (simp add: update_closed)
  show ?case
    using Cons.IH [of d1] d1 update_fields(2) [OF d1] by simp
qed

lemma cooldown_rounding_example:
  "\<exists>d2. updates [3602879701896397 / 72057594037927936, 3602879701896397 / 72057594037927936,
                  3602879701896397 / 72057594037927936, 3602879701896397 / 72057594037927936,
                  3602879701896397 / 72057594037927936, 3602879701896397 / 72057594037927936]
          (snd (fire \<lparr>forward = (0, 0, -1), worldPosition = (0, 50, 0)\<rparr> ''first'' (Drone 0 50 0)))
        = Some d2 \<and>
     cooldown d2 = 1 / 72057594037927936 \<and>
     cooldownTime (Drone 0 50 0) <
       sum_list [3602879701896397 / 72057594037927936, 3602879701896397 / 72057594037927936,
                 3602879701896397 / 72057594037927936, 3602879701896397 / 72057594037927936,
                 3602879701896397 / 72057594037927936, 3602879701896397 / 72057594037927936] \<and>
     fire \<lparr>forward = (0, 0, -1), worldPosition = (0, 50, 0)\<rparr> ''first'' d2 = (None, d2)"
proof -
  let ?cam = "\<lparr>forward = (0, 0, -1), worldPosition = (0, 50, 0)\<rparr>"
  let ?d1 = "snd (fire ?cam ''first'' (Drone 0 50 0))"
  let ?dts = "[3602879701896397 / 72057594037927936, 3602879701896397 / 72057594037927936,
               3602879701896397 / 72057594037927936, 3602879701896397 / 72057594037927936,
               3602879701896397 / 72057594037927936, 3602879701896397 / 72057594037927936 :: real]"
  have c1: "cooldown ?d1 = 5404319552844595 / 18014398509481984"
    by (simp add: fire_accepted Drone_fields)
  have r1: "roundDouble (18014398509481983 / 72057594037927936) = 1 / 4"
    using roundBinary_at [of "- 3" "18014398509481983 / 72057594037927936" "- 1022" 53]
    by (simp add: roundDouble_def roundTiesToEven_def Let_def powr_minus)
  have r2: "roundDouble (14411518807585587 / 72057594037927936) = 3602879701896397 / 18014398509481984"
    using roundBinary_at [of "- 3" "14411518807585587 / 72057594037927936" "- 1022" 53]
    by (simp add: roundDouble_def roundTiesToEven_def Let_def powr_minus)
  have r3: "roundDouble (10808639105689191 / 72057594037927936) = 1351079888211149 / 9007199254740992"
    using roundBinary_at [of "- 3" "10808639105689191 / 72057594037927936" "- 1022" 53]
    by (simp add: roundDouble_def roundTiesToEven_def Let_def powr_minus)
  have r4: "roundDouble (7205759403792795 / 72057594037927936) = 7205759403792795 / 72057594037927936"
    using roundDouble_dyadic [of 7205759403792795 56] by simp
  have r5: "roundDouble (1801439850948199 / 36028797018963968) = 1801439850948199 / 36028797018963968"
    using roundDouble_dyadic [of 1801439850948199 55] by simp
  have r6: "roundDouble (1 / 72057594037927936) = 1 / 72057594037927936"
    using roundDouble_dyadic [of 1 56] by simp
  obtain d2 where d2: "updates ?dts ?d1 = Some d2"
    and c2: "cooldown d2 =
      fold (\<lambda>dt c. if c > 0 then max 0 (roundDouble (c - dt)) else c) ?dts (cooldown ?d1)"
    using updates_cooldown_fold [of ?dts ?d1] by blast
  have v: "cooldown d2 = 1 / 72057594037927936"
    unfolding c2 c1 by (simp add: r1 r2 r3 r4 r5 r6)
  have "fire ?cam ''first'' d2 = (None, d2)"
    using v by (simp add: fire_rejected)
  moreover have "cooldownTime (Drone 0 50 0) < sum_list ?dts"
    by (simp add: Drone_fields)
  ultimately show ?thesis
    using d2 v by blast
qed

text \<open>
  Claim C5, amended. A call of \<open>fire\<close> in first-person mode with the cooldown expired
  creates exactly one projectile and starts the cooldown at \<open>T = cooldownTime\<close>. Let \<open>n\<close> frames
  follow, with elapsed times that are not negative and add up to \<open>s\<close>. If \<open>s\<close> is less than
  \<open>T\<close> by more than the rounding tolerance of \<open>n\<close> binary64 subtractions, a second call of
  \<open>fire\<close>, in any mode, creates nothing and leaves the state unchanged; if \<open>s\<close> is at least
  \<open>T\<close> plus that tolerance, a call of \<open>fire\<close> in first-person mode creates a projectile
  again. For up to \<open>2 ^ 52\<close> frames the tolerance is at most \<open>n * (T + 1) / 2 ^ 52\<close>.
\<close>

theorem fire_cooldown_window:
  assumes "cooldown d0 \<le> 0" and "d1 = snd (fire cam1 ''first'' d0)"
    and "\<forall>dt \<in> set dts. 0 \<le> dt"
    and "T = cooldownTime d0" and "n = length dts"
  shows "length (projectiles d1) = Suc (length (projectiles d0)) \<and>
    cooldown d1 = T \<and>
    (\<exists>d2. updates dts d1 = Some d2 \<and>
       (sum_list dts + tolerance T n < T \<longrightarrow> fire cam2 mode2 d2 = (None, d2)) \<and>
       (T + tolerance T n \<le> sum_list dts \<longrightarrow>
          projectiles (snd (fire cam2 ''first'' d2)) =
            projectiles d2 @ [\<lparr>oid = nextOid d2, position = worldPosition cam2, dir = forward cam2,
                               life = projectileTTL d2\<rparr>])) \<and>
    (n \<le> 2 ^ 52 \<longrightarrow> tolerance T n \<le> real n * (\<bar>T\<bar> + 1) / 2 ^ 52)"
proof -
  have d1: "d1 = d0\<lparr>scene := scene d0 @ [nextOid d0],
              projectiles := projectiles d0 @
                [\<lparr>oid = nextOid d0, position = worldPosition cam1, dir = forward cam1,
                  life = projectileTTL d0\<rparr>],
              cooldown := cooldownTime d0,
              nextOid := Suc (nextOid d0)\<rparr>"
    unfolding assms(2) using assms(1) by (simp add: fire_accepted)
  have one: "length (projectiles d1) = Suc (length (projectiles d0))"
    unfolding d1 by simp
  have ct: "cooldown d1 = T"
    unfolding d1 assms(4) by simp
  have inv: "(0 < cooldown d1 \<longrightarrow> \<bar>cooldown d1 - (T - 0)\<bar> \<le> tolerance T 0) \<and>
         (cooldown d1 \<le> 0 \<longrightarrow> T - 0 \<le> tolerance T 0)"
    unfolding ct by simp
  obtain d2 where d2: "updates dts d1 = Some d2"
    and pos: "0 < cooldown d2 \<longrightarrow> \<bar>cooldown d2 - (T - (0 + sum_list dts))\<bar> \<le> tolerance T (0 + length dts)"
    and neg: "cooldown d2 \<le> 0 \<longrightarrow> T - (0 + sum_list dts) \<le> tolerance T (0 + length dts)"
    using updates_cooldown [OF assms(3) order_refl inv] by blast
  have early: "sum_list dts + tolerance T n < T \<longrightarrow> fire cam2 mode2 d2 = (None, d2)"
  proof
    assume "sum_list dts + tolerance T n < T"
    then have "0 < cooldown d2"
      using neg unfolding assms(5) by (cases "0 < cooldown d2") simp_all
    then show "fire cam2 mode2 d2 = (None, d2)"
      by (simp add: fire_rejected)
  qed
  have late: "T + tolerance T n \<le> sum_list dts \<longrightarrow>
          projectiles (snd (fire cam2 ''first'' d2)) =
            projectiles d2 @ [\<lparr>oid = nextOid d2, position = worldPosition cam2, dir = forward cam2,
                               life = projectileTTL d2\<rparr>]"
  proof
    assume "T + tolerance T n \<le> sum_list dts"
    then have "cooldown d2 \<le> 0"
      using pos unfolding assms(5) by (cases "0 < cooldown d2") simp_all
    then show "projectiles (snd (fire cam2 ''first'' d2)) =
            projectiles d2 @ [\<lparr>oid = nextOid d2, position = worldPosition cam2, dir = forward cam2,
                               life = projectileTTL d2\<rparr>]"
      by (simp add: fire_accepted)
  qed
  have lin: "n \<le> 2 ^ 52 \<longrightarrow> tolerance T n \<le> real n * (\<bar>T\<bar> + 1) / 2 ^ 52"
    using tolerance_linear [of n T] by blast
  from one ct d2 early late lin show ?thesis by blast
qed

theorem fire_cooldown_window_witness:
  "(\<exists>d2. updates [1 / 8, 1 / 8] (snd (fire \<lparr>forward = (0, 0, -1), worldPosition = (0, 50, 0)\<rparr> ''first'' (Drone 0 50 0))) = Some d2 \<and>
      fire \<lparr>forward = (0, 0, -1), worldPosition = (0, 50, 0)\<rparr> ''first'' d2 = (None, d2)) \<and>
   (\<exists>d2. updates [1 / 8, 1 / 8, 1 / 8] (snd (fire \<lparr>forward = (0, 0, -1), worldPosition = (0, 50, 0)\<rparr> ''first'' (Drone 0 50 0))) = Some d2 \<and>
      length (projectiles (snd (fire \<lparr>forward = (0, 0, -1), worldPosition = (0, 50, 0)\<rparr> ''first'' d2))) =
        Suc (length (projectiles d2)))"
proof -
  let ?cam = "\<lparr>forward = (0, 0, -1), worldPosition = (0, 50, 0)\<rparr>"
  let ?d1 = "snd (fire ?cam ''first'' (Drone 0 50 0))"
  let ?T = "5404319552844595 / 18014398509481984 :: real"
  have c: "cooldown (Drone 0 50 0) \<le> 0" by (simp add: Drone_fields)
  have T: "?T = cooldownTime (Drone 0 50 0)" by (simp add: Drone_fields)
  have a: "\<forall>dt \<in> set [1 / 8, 1 / 8 :: real]. 0 \<le> dt" by simp
  have b: "\<forall>dt \<in> set [1 / 8, 1 / 8, 1 / 8 :: real]. 0 \<le> dt" by simp
  have na: "(2::nat) = length [1 / 8, 1 / 8 :: real]" by simp
  have nb: "(3::nat) = length [1 / 8, 1 / 8, 1 / 8 :: real]" by simp
  have ta: "tolerance ?T 2 \<le> 1 / 100"
    using tolerance_linear [of 2 ?T] by simp
  have tb: "tolerance ?T 3 \<le> 1 / 100"
    using tolerance_linear [of 3 ?T] by simp
  have 1: "\<exists>d2. updates [1 / 8, 1 / 8] ?d1 = Some d2 \<and> fire ?cam ''first'' d2 = (None, d2)"
    using fire_cooldown_window [OF c refl a T na, of ?cam ?cam "''first''"] ta
    by auto
  have 2: "\<exists>d2. updates [1 / 8, 1 / 8, 1 / 8] ?d1 = Some d2 \<and>
      length (projectiles (snd (fire ?cam ''first'' d2))) = Suc (length (projectiles d2))"
    using fire_cooldown_window [OF c refl b T nb, of ?cam ?cam "''first''"] tb
    by auto
  from 1 2 show ?thesis by blast
qed

subsection \<open>Time to live\<close>

text \<open>A frame on a drone with one projectile in flight whose life stays positive.\<close>

lemma update_keeps_single:
  assumes "map oid (projectiles d) = [k]" and "map life (projectiles d) = [v]"
    and "0 < roundDouble (v - dt)"
  shows "\<exists>d'. update dt d = Some d' \<and> map oid (projectiles d') = [k] \<and>
           map life (projectiles d') = [roundDouble (v - dt)]"
proof -
  obtain p where p: "projectiles d = [p]" "oid p = k" "life p = v"
    using assms(1,2) by (cases "projectiles d") auto
  show ?thesis
    unfolding update_closed using p assms(3) by simp
qed

text \<open>
  Claim C6, as stated: the projectile is absent once the cumulative advanced time has
  reached its time to live. The life is counted down in binary64, and the rounding of the
  subtractions can leave life when the frame times have added up to the time to live. A
  new drone fires (time to live 4) and five frames of 0.8 seconds follow (the binary64
  number \<open>3602879701896397 / 2 ^ 52\<close>). The frame times add up to more than 4, and in
  binary64 to 4, yet the projectile is still in the live set, with a life of \<open>2 ^ - 52\<close>.
\<close>

theorem projectile_outlives_time_to_live_counterexample:
  "projectileTTL (Drone 0 50 0) = 4 \<and>
   4 \<le> elapsed [Update (3602879701896397 / 4503599627370496), Update (3602879701896397 / 4503599627370496),
                Update (3602879701896397 / 4503599627370496), Update (3602879701896397 / 4503599627370496),
                Update (3602879701896397 / 4503599627370496)] \<and>
   run [Update (3602879701896397 / 4503599627370496), Update (3602879701896397 / 4503599627370496),
        Update (3602879701896397 / 4503599627370496), Update (3602879701896397 / 4503599627370496),
        Update (3602879701896397 / 4503599627370496)]
       (snd (fire \<lparr>forward = (0, 0, -1), worldPosition = (0, 50, 0)\<rparr> ''first'' (Drone 0 50 0))) \<noteq> None \<and>
   live 0 (the (run [Update (3602879701896397 / 4503599627370496), Update (3602879701896397 / 4503599627370496),
        Update (3602879701896397 / 4503599627370496), Update (3602879701896397 / 4503599627370496),
        Update (3602879701896397 / 4503599627370496)]
       (snd (fire \<lparr>forward = (0, 0, -1), worldPosition = (0, 50, 0)\<rparr> ''first'' (Drone 0 50 0))))) \<and>
   map life (projectiles (the (run [Update (3602879701896397 / 4503599627370496), Update (3602879701896397 / 4503599627370496),
        Update (3602879701896397 / 4503599627370496), Update (3602879701896397 / 4503599627370496),
        Update (3602879701896397 / 4503599627370496)]
       (snd (fire \<lparr>forward = (0, 0, -1), worldPosition = (0, 50, 0)\<rparr> ''first'' (Drone 0 50 0)))))) =
     [1 / 4503599627370496]"
proof -
  let ?cam = "\<lparr>forward = (0, 0, -1), worldPosition = (0, 50, 0)\<rparr>"
  let ?d1 = "snd (fire ?cam ''first'' (Drone 0 50 0))"
  let ?dt = "3602879701896397 / 4503599627370496 :: real"
  have r1: "roundDouble (4 - ?dt) = 3602879701896397 / 1125899906842624"
    using roundBinary_at [of 1 "14411518807585587 / 4503599627370496" "- 1022" 53]
    by (simp add: roundDouble_def roundTiesToEven_def Let_def powr_minus)
  have r2: "roundDouble (3602879701896397 / 1125899906842624 - ?dt) = 1351079888211149 / 562949953421312"
    using roundBinary_at [of 1 "10808639105689191 / 4503599627370496" "- 1022" 53]
    by (simp add: roundDouble_def roundTiesToEven_def Let_def powr_minus)
  have r3: "roundDouble (1351079888211149 / 562949953421312 - ?dt) = 7205759403792795 / 4503599627370496"
    using roundDouble_dyadic [of 7205759403792795 52] by simp
  have r4: "roundDouble (7205759403792795 / 4503599627370496 - ?dt) = 1801439850948199 / 2251799813685248"
    using roundDouble_dyadic [of 1801439850948199 51] by simp
  have r5: "roundDouble (1801439850948199 / 2251799813685248 - ?dt) = 1 / 4503599627370496"
    using roundDouble_dyadic [of 1 52] by simp
  have o1: "map oid (projectiles ?d1) = [0]" and l1: "map life (projectiles ?d1) = [4]"
    by (simp_all add: fire_accepted Drone_fields)
  obtain d2 where d2: "update ?dt ?d1 = Some d2" and o2: "map oid (projectiles d2) = [0]"
    and l2: "map life (projectiles d2) = [3602879701896397 / 1125899906842624]"
    using update_keeps_single [OF o1 l1, of ?dt] unfolding r1 by auto
  obtain d3 where d3: "update ?dt d2 = Some d3" and o3: "map oid (projectiles d3) = [0]"
    and l3: "map life (projectiles d3) = [1351079888211149 / 562949953421312]"
    using update_keeps_single [OF o2 l2, of ?dt] unfolding r2 by auto
  obtain d4 where d4: "update ?dt d3 = Some d4" and o4: "map oid (projectiles d4) = [0]"
    and l4: "map life (projectiles d4) = [7205759403792795 / 4503599627370496]"
    using update_keeps_single [OF o3 l3, of ?dt] unfolding r3 by auto
  obtain d5 where d5: "update ?dt d4 = Some d5" and o5: "map oid (projectiles d5) = [0]"
    and l5: "map life (projectiles d5) = [1801439850948199 / 2251799813685248]"
    using update_keeps_single [OF o4 l4, of ?dt] unfolding r4 by auto
  obtain d6 where d6: "update ?dt d5 = Some d6" and o6: "map oid (projectiles d6) = [0]"
    and l6: "map life (projectiles d6) = [1 / 4503599627370496]"
    using update_keeps_single [OF o5 l5, of ?dt] unfolding r5 by auto
  have run: "run [Update ?dt, Update ?dt, Update ?dt, Update ?dt, Update ?dt] ?d1 = Some d6"
    by (simp add: d2 d3 d4 d5 d6)
  have "live 0 d6"
    unfolding live_def using o6 by (metis image_set list.set_intros(1))
  moreover have "projectileTTL (Drone 0 50 0) = 4"
    by (simp add: Drone_fields)
  moreover have "4 \<le> elapsed [Update ?dt, Update ?dt, Update ?dt, Update ?dt, Update ?dt]"
    by simp
  ultimately show ?thesis
    unfolding run using l6 by simp
qed

text \<open>
  Claim C6, amended. Let a projectile be created by a successful \<open>fire\<close> on a well-formed
  drone with time to live \<open>T > 0\<close>, and let any sequence of calls of \<open>update\<close>, with elapsed
  times that are not negative, and of \<open>fire\<close> follow; let \<open>t\<close> be the total time of the
  updates and \<open>n\<close> their number. The sequence returns. The projectile is in the live set
  right after its creation; after the sequence it is in the live set if \<open>t\<close> is less than
  \<open>T\<close> by more than the rounding tolerance of \<open>n\<close> binary64 subtractions, and absent if \<open>t\<close>
  is at least \<open>T\<close> plus that tolerance; while it is live its remaining life is positive and
  within the tolerance of \<open>T - t\<close>. For up to \<open>2 ^ 52\<close> frames the tolerance is at most
  \<open>n * (T + 1) / 2 ^ 52\<close>. Every single \<open>update\<close> returns, moves every projectile by its
  direction times \<open>projectileSpeed * dt\<close> and lowers its life by \<open>dt\<close>, each operation
  rounded to binary64 (the life with a relative error of at most \<open>2 ^ - 53\<close>), and keeps
  exactly those whose life is still positive.
\<close>

theorem projectile_time_to_live:
  assumes "wellFormed d0" and "cooldown d0 \<le> 0" and "T = projectileTTL d0" and "0 < T"
    and "d1 = snd (fire cam ''first'' d0)"
    and "forwardInTime es" and "t = elapsed es" and "n = frameCount es"
  shows "live (nextOid d0) d1 \<and>
    \<lparr>oid = nextOid d0, position = worldPosition cam, dir = forward cam, life = T\<rparr> \<in> set (projectiles d1) \<and>
    (\<exists>d2. run es d1 = Some d2 \<and>
       (t + tolerance T n < T \<longrightarrow> live (nextOid d0) d2) \<and>
       (T + tolerance T n \<le> t \<longrightarrow> \<not> live (nextOid d0) d2) \<and>
       (\<forall>p \<in> set (projectiles d2). oid p = nextOid d0 \<longrightarrow>
          0 < life p \<and> \<bar>life p - (T - t)\<bar> \<le> tolerance T n)) \<and>
    (n \<le> 2 ^ 52 \<longrightarrow> tolerance T n \<le> real n * (\<bar>T\<bar> + 1) / 2 ^ 52) \<and>
    (\<exists>d'. update dt d = Some d' \<and>
       projectiles d' =
         filter (\<lambda>p. 0 < life p)
           (map (\<lambda>p. p\<lparr>position :=
                          (roundDouble (getX (position p) + roundDouble (getX (dir p) * roundDouble (projectileSpeed d * dt))),
                           roundDouble (getY (position p) + roundDouble (getY (dir p) * roundDouble (projectileSpeed d * dt))),
                           roundDouble (getZ (position p) + roundDouble (getZ (dir p) * roundDouble (projectileSpeed d * dt)))),
                        life := roundDouble (life p - dt)\<rparr>)
              (projectiles d))) \<and>
    \<bar>roundDouble (v - dt) - (v - dt)\<bar> \<le> (\<bar>v - dt\<bar> + 2 powr (- 1022)) * 2 powr (- 53)"
proof -
  let ?k = "nextOid d0"
  let ?new = "\<lparr>oid = ?k, position = worldPosition cam, dir = forward cam, life = T\<rparr>"
  have d1: "d1 = d0\<lparr>scene := scene d0 @ [nextOid d0],
              projectiles := projectiles d0 @ [?new],
              cooldown := cooldownTime d0,
              nextOid := Suc (nextOid d0)\<rparr>"
    unfolding assms(5) assms(3) using assms(2) by (simp add: fire_accepted)
  have ps1: "projectiles d1 = projectiles d0 @ [?new]"
    unfolding d1 by simp
  have ttl: "0 < projectileTTL d1"
    unfolding d1 using assms(3,4) by simp
  have wf: "wellFormed d1"
    unfolding assms(5) using assms(1) assms(4) [unfolded assms(3)] by (rule wellFormed_fire)
  have k: "?k < nextOid d1"
    unfolding d1 by simp
  have mem1: "?new \<in> set (projectiles d1)"
    unfolding ps1 by simp
  have l1: "live ?k d1"
    unfolding live_def ps1 by (simp add: image_iff)
  have "\<exists>p \<in> set (projectiles d1). oid p = ?k \<and> \<bar>life p - (T - 0)\<bar> \<le> tolerance T 0"
    using mem1 by (intro bexI [of _ ?new]) simp_all
  then have inv: "(\<exists>p \<in> set (projectiles d1). oid p = ?k \<and> \<bar>life p - (T - 0)\<bar> \<le> tolerance T 0) \<or>
         (\<not> live ?k d1 \<and> T - 0 \<le> tolerance T 0)"
    by (rule disjI1)
  obtain d2 where d2: "run es d1 = Some d2" and wf2: "wellFormed d2"
    and r: "(\<exists>p \<in> set (projectiles d2). oid p = ?k \<and> \<bar>life p - (T - t)\<bar> \<le> tolerance T n) \<or>
            (\<not> live ?k d2 \<and> T - t \<le> tolerance T n)"
    using run_tracks [OF wf ttl k assms(6) order_refl inv] unfolding assms(7,8) by auto
  have pos: "\<forall>p \<in> set (projectiles d2). 0 < life p"
    using wf2 by (simp add: wellFormed_def)
  have inj: "\<forall>p \<in> set (projectiles d2). \<forall>q \<in> set (projectiles d2). oid p = oid q \<longrightarrow> p = q"
    using wf2 by (auto simp: wellFormed_def distinct_map inj_on_def)
  have early: "t + tolerance T n < T \<longrightarrow> live ?k d2"
  proof
    assume "t + tolerance T n < T"
    then have "\<exists>p \<in> set (projectiles d2). oid p = ?k"
      using r by auto
    then show "live ?k d2"
      unfolding live_def by (metis imageI)
  qed
  have late: "T + tolerance T n \<le> t \<longrightarrow> \<not> live ?k d2"
  proof
    assume far: "T + tolerance T n \<le> t"
    have "\<not> (\<exists>p \<in> set (projectiles d2). oid p = ?k \<and> \<bar>life p - (T - t)\<bar> \<le> tolerance T n)"
    proof
      assume "\<exists>p \<in> set (projectiles d2). oid p = ?k \<and> \<bar>life p - (T - t)\<bar> \<le> tolerance T n"
      then obtain p where p: "p \<in> set (projectiles d2)" "\<bar>life p - (T - t)\<bar> \<le> tolerance T n"
        by blast
      have "0 < life p" using pos p(1) by blast
      with p(2) far show False by linarith
    qed
    with r show "\<not> live ?k d2" by blast
  qed
  have near: "\<forall>p \<in> set (projectiles d2). oid p = ?k \<longrightarrow>
          0 < life p \<and> \<bar>life p - (T - t)\<bar> \<le> tolerance T n"
  proof (intro ballI impI)
    fix p assume p: "p \<in> set (projectiles d2)" "oid p = ?k"
    then have "live ?k d2"
      unfolding live_def by (metis imageI)
    then obtain q where q: "q \<in> set (projectiles d2)" "oid q = ?k"
      "\<bar>life q - (T - t)\<bar> \<le> tolerance T n"
      using r by blast
    have "p = q" using inj p q(1,2) by auto
    then show "0 < life p \<and> \<bar>life p - (T - t)\<bar> \<le> tolerance T n"
      using q(3) pos p(1) by blast
  qed
  have lin: "n \<le> 2 ^ 52 \<longrightarrow> tolerance T n \<le> real n * (\<bar>T\<bar> + 1) / 2 ^ 52"
    using tolerance_linear [of n T] by blast
  have step: "\<exists>d'. update dt d = Some d' \<and>
       projectiles d' =
         filter (\<lambda>p. 0 < life p)
           (map (\<lambda>p. p\<lparr>position :=
                          (roundDouble (getX (position p) + roundDouble (getX (dir p) * roundDouble (projectileSpeed d * dt))),
                           roundDouble (getY (position p) + roundDouble (getY (dir p) * roundDouble (projectileSpeed d * dt))),
                           roundDouble (getZ (position p) + roundDouble (getZ (dir p) * roundDouble (projectileSpeed d * dt)))),
                        life := roundDouble (life p - dt)\<rparr>)
              (projectiles d))"
  proof -
    have adv: "advanceProjectile (projectileSpeed d) dt =
        (\<lambda>p. p\<lparr>position :=
                          (roundDouble (getX (position p) + roundDouble (getX (dir p) * roundDouble (projectileSpeed d * dt))),
                           roundDouble (getY (position p) + roundDouble (getY (dir p) * roundDouble (projectileSpeed d * dt))),
                           roundDouble (getZ (position p) + roundDouble (getZ (dir p) * roundDouble (projectileSpeed d * dt)))),
                        life := roundDouble (life p - dt)\<rparr>)"
      by (rule ext) (simp add: advanceProjectile_def addScaledVector_def)
    show ?thesis
      unfolding update_closed adv by simp
  qed
  have err: "\<bar>roundDouble (v - dt) - (v - dt)\<bar> \<le> (\<bar>v - dt\<bar> + 2 powr (- 1022)) * 2 powr (- 53)"
    by (rule roundDouble_error)
  from l1 mem1 d2 early late near lin step err show ?thesis by blast
qed

theorem projectile_time_to_live_witness:
  "(\<exists>d2. run [Update 1, Fire \<lparr>forward = (1, 0, 0), worldPosition = (0, 60, 0)\<rparr> ''first'',
              Update 2, Update (1 / 2)]
          (snd (fire \<lparr>forward = (0, 0, -1), worldPosition = (0, 50, 0)\<rparr> ''first'' (Drone 0 50 0)))
        = Some d2 \<and>
      live 0 d2) \<and>
   (\<exists>d2. run [Update 1, Fire \<lparr>forward = (1, 0, 0), worldPosition = (0, 60, 0)\<rparr> ''first'',
              Update 2, Update 2]
          (snd (fire \<lparr>forward = (0, 0, -1), worldPosition = (0, 50, 0)\<rparr> ''first'' (Drone 0 50 0)))
        = Some d2 \<and>
      \<not> live 0 d2)"
proof -
  let ?cam = "\<lparr>forward = (0, 0, -1), worldPosition = (0, 50, 0)\<rparr>"
  let ?cam2 = "\<lparr>forward = (1, 0, 0), worldPosition = (0, 60, 0)\<rparr>"
  let ?d0 = "Drone 0 50 0"
  have c: "cooldown ?d0 \<le> 0" by (simp add: Drone_fields)
  have T: "(4::real) = projectileTTL ?d0" "(0::real) < 4" by (simp_all add: Drone_fields)
  have a: "forwardInTime [Update 1, Fire ?cam2 ''first'', Update 2, Update (1 / 2)]" by simp
  have b: "forwardInTime [Update 1, Fire ?cam2 ''first'', Update 2, Update 2]" by simp
  have sa: "(7 / 2 :: real) = elapsed [Update 1, Fire ?cam2 ''first'', Update 2, Update (1 / 2)]"
    by simp
  have sb: "(5 :: real) = elapsed [Update 1, Fire ?cam2 ''first'', Update 2, Update 2]"
    by simp
  have na: "(3::nat) = frameCount [Update 1, Fire ?cam2 ''first'', Update 2, Update (1 / 2)]"
    by simp
  have nb: "(3::nat) = frameCount [Update 1, Fire ?cam2 ''first'', Update 2, Update 2]"
    by simp
  have tol: "tolerance 4 3 \<le> 1 / 100"
    using tolerance_linear [of 3 4] by simp
  have 1: "\<exists>d2. run [Update 1, Fire ?cam2 ''first'', Update 2, Update (1 / 2)]
        (snd (fire ?cam ''first'' ?d0)) = Some d2 \<and> live 0 d2"
    using projectile_time_to_live [OF wellFormed_Drone c T refl a sa na, of ?cam 0 ?d0] tol
    by (auto simp: Drone_fields)
  have 2: "\<exists>d2. run [Update 1, Fire ?cam2 ''first'', Update 2, Update 2]
        (snd (fire ?cam ''first'' ?d0)) = Some d2 \<and> \<not> live 0 d2"
    using projectile_time_to_live [OF wellFormed_Drone c T refl b sb nb, of ?cam 0 ?d0] tol
    by (auto simp: Drone_fields)
  from 1 2 show ?thesis by blast
qed

end
